theory Spec2Isabelle
  imports Main "HOL-Library.Word"
begin

unbundle bit_operations_syntax

section \<open>Machine model\<close>

text \<open>
  The allocators of namespace \<open>Core\<close> are embedded for an LP64 target: \<open>size_t\<close>,
  \<open>uintptr_t\<close> and every pointer are 64-bit words whose arithmetic wraps around, the null
  pointer is the word 0, and a struct of two 8-byte members (or of a \<open>size_t\<close> followed by
  a \<open>uint8_t\<close>) occupies 16 bytes with its second member at offset 8.

  Memory is a total map from addresses to bytes. The metadata the allocators keep inside
  their buffers (allocation headers, free-block descriptors, pool links) is written and read
  through \<open>store64\<close>, \<open>load64\<close>, \<open>store8\<close> and \<open>load8\<close>, eight bytes in
  little-endian order for a 64-bit member, so that two members placed less than eight bytes
  apart overwrite each other exactly as they do in the buffer.
\<close>

type_synonym size_t = "64 word"
type_synonym ptr = "64 word"
type_synonym byte = "8 word"
type_synonym memory = "ptr \<Rightarrow> byte"

definition nullptr :: ptr where
  "nullptr = 0"

definition load8 :: "memory \<Rightarrow> ptr \<Rightarrow> byte" where
  "load8 m a = m a"

definition store8 :: "memory \<Rightarrow> ptr \<Rightarrow> byte \<Rightarrow> memory" where
  "store8 m a v = m(a := v)"

definition load64 :: "memory \<Rightarrow> ptr \<Rightarrow> 64 word" where
  "load64 m a =
     ucast (m a) OR push_bit 8 (ucast (m (a + 1))) OR push_bit 16 (ucast (m (a + 2)))
       OR push_bit 24 (ucast (m (a + 3))) OR push_bit 32 (ucast (m (a + 4)))
       OR push_bit 40 (ucast (m (a + 5))) OR push_bit 48 (ucast (m (a + 6)))
       OR push_bit 56 (ucast (m (a + 7)))"

definition store64 :: "memory \<Rightarrow> ptr \<Rightarrow> 64 word \<Rightarrow> memory" where
  "store64 m a v =
     (\<lambda>x. if x = a then ucast v
          else if x = a + 1 then ucast (drop_bit 8 v)
          else if x = a + 2 then ucast (drop_bit 16 v)
          else if x = a + 3 then ucast (drop_bit 24 v)
          else if x = a + 4 then ucast (drop_bit 32 v)
          else if x = a + 5 then ucast (drop_bit 40 v)
          else if x = a + 6 then ucast (drop_bit 48 v)
          else if x = a + 7 then ucast (drop_bit 56 v)
          else m x)"

text \<open>
  What the source can raise. \<open>DivideByZero\<close> stands for the undefined \<open>x % 0\<close> of the
  linear and the stack allocator when they are called with alignment 0; \<open>RuntimeError\<close>
  is \<open>std::runtime_error\<close> with its message, \<open>BadAlloc\<close> is \<open>std::bad_alloc\<close>.
\<close>

datatype error = DivideByZero | RuntimeError string | BadAlloc

section \<open>LinearAllocator\<close>

text \<open>
  \<open>lin_mem\<close> is the memory the allocator works in; the other fields are the members of the
  class (\<open>m_name\<close> and \<open>m_threadSafe\<close> included, which no operation below reads).
\<close>

record LinearAllocator =
  lin_m_buffer :: ptr
  lin_m_bufferSize :: size_t
  lin_m_offset :: size_t
  lin_m_name :: string
  lin_m_threadSafe :: bool
  lin_m_peakUsage :: size_t
  lin_m_allocationCount :: size_t
  lin_mem :: memory

text \<open>The constructor; \<open>buf\<close> is the address \<open>new uint8_t[bufferSize]\<close> returned.\<close>

definition LinearAllocator_new :: "memory \<Rightarrow> ptr \<Rightarrow> size_t \<Rightarrow> LinearAllocator" where
  "LinearAllocator_new mem buf bufferSize =
     \<lparr>lin_m_buffer = buf, lin_m_bufferSize = bufferSize, lin_m_offset = 0,
      lin_m_name = ''LinearAllocator'', lin_m_threadSafe = False,
      lin_m_peakUsage = 0, lin_m_allocationCount = 0, lin_mem = mem\<rparr>"

definition LinearAllocator_padding :: "LinearAllocator \<Rightarrow> size_t \<Rightarrow> size_t" where
  "LinearAllocator_padding s alignment =
     (alignment - (lin_m_offset s mod alignment)) mod alignment"

definition LinearAllocator_newOffset :: "LinearAllocator \<Rightarrow> size_t \<Rightarrow> size_t \<Rightarrow> size_t" where
  "LinearAllocator_newOffset s sz alignment =
     lin_m_offset s + LinearAllocator_padding s alignment + sz"

definition LinearAllocator_Allocate ::
  "LinearAllocator \<Rightarrow> size_t \<Rightarrow> size_t \<Rightarrow> error + (ptr \<times> LinearAllocator)" where
  "LinearAllocator_Allocate s sz alignment =
     (if alignment = 0 then Inl DivideByZero
      else
        let padding = LinearAllocator_padding s alignment;
            newOffset = LinearAllocator_newOffset s sz alignment
        in if newOffset > lin_m_bufferSize s then Inr (nullptr, s)
           else
             let p = lin_m_buffer s + lin_m_offset s + padding
             in Inr (p, s\<lparr>lin_m_offset := newOffset,
                          lin_m_allocationCount := lin_m_allocationCount s + 1,
                          lin_m_peakUsage := max (lin_m_peakUsage s) newOffset\<rparr>))"

definition LinearAllocator_Free :: "LinearAllocator \<Rightarrow> ptr \<Rightarrow> LinearAllocator" where
  "LinearAllocator_Free s p = s"

definition LinearAllocator_GetAllocationSize :: "LinearAllocator \<Rightarrow> ptr \<Rightarrow> size_t" where
  "LinearAllocator_GetAllocationSize s p =
     (if p < lin_m_buffer s \<or> p \<ge> lin_m_buffer s + lin_m_offset s then 0
      else lin_m_buffer s + lin_m_offset s - p)"

definition LinearAllocator_GetTotalAllocated :: "LinearAllocator \<Rightarrow> size_t" where
  "LinearAllocator_GetTotalAllocated s = lin_m_offset s"

definition LinearAllocator_GetPeakUsage :: "LinearAllocator \<Rightarrow> size_t" where
  "LinearAllocator_GetPeakUsage s = lin_m_peakUsage s"

definition LinearAllocator_Reset :: "LinearAllocator \<Rightarrow> LinearAllocator" where
  "LinearAllocator_Reset s = s\<lparr>lin_m_offset := 0, lin_m_allocationCount := 0\<rparr>"

definition LinearAllocator_Owns :: "LinearAllocator \<Rightarrow> ptr \<Rightarrow> bool" where
  "LinearAllocator_Owns s p \<longleftrightarrow> p \<ge> lin_m_buffer s \<and> p < lin_m_buffer s + lin_m_offset s"

definition LinearAllocator_GetAllocationCount :: "LinearAllocator \<Rightarrow> size_t" where
  "LinearAllocator_GetAllocationCount s = lin_m_allocationCount s"

definition LinearAllocator_ValidateInternalState :: "LinearAllocator \<Rightarrow> bool" where
  "LinearAllocator_ValidateInternalState s \<longleftrightarrow> lin_m_offset s \<le> lin_m_bufferSize s"

section \<open>StackAllocator\<close>

text \<open>
  \<open>AllocationHeader\<close> is \<open>{size_t size; size_t adjustment}\<close>: 16 bytes, \<open>size\<close> at
  offset 0 and \<open>adjustment\<close> at offset 8. \<open>stk_m_markers\<close> is the vector \<open>m_markers\<close>,
  its back at the end of the list.
\<close>

definition StackAllocator_headerSize :: size_t where
  "StackAllocator_headerSize = 16"

record StackAllocator =
  stk_m_buffer :: ptr
  stk_m_bufferSize :: size_t
  stk_m_offset :: size_t
  stk_m_name :: string
  stk_m_threadSafe :: bool
  stk_m_peakUsage :: size_t
  stk_m_allocationCount :: size_t
  stk_m_markers :: "size_t list"
  stk_mem :: memory

definition StackAllocator_new :: "memory \<Rightarrow> ptr \<Rightarrow> size_t \<Rightarrow> StackAllocator" where
  "StackAllocator_new mem buf bufferSize =
     \<lparr>stk_m_buffer = buf, stk_m_bufferSize = bufferSize, stk_m_offset = 0,
      stk_m_name = ''StackAllocator'', stk_m_threadSafe = False,
      stk_m_peakUsage = 0, stk_m_allocationCount = 0, stk_m_markers = [],
      stk_mem = mem\<rparr>"

definition StackAllocator_padding :: "StackAllocator \<Rightarrow> size_t \<Rightarrow> size_t" where
  "StackAllocator_padding s alignment =
     (alignment - ((stk_m_offset s + StackAllocator_headerSize) mod alignment)) mod alignment"

definition StackAllocator_newOffset :: "StackAllocator \<Rightarrow> size_t \<Rightarrow> size_t \<Rightarrow> size_t" where
  "StackAllocator_newOffset s sz alignment =
     stk_m_offset s + (sz + StackAllocator_headerSize) + StackAllocator_padding s alignment"

definition StackAllocator_Allocate ::
  "StackAllocator \<Rightarrow> size_t \<Rightarrow> size_t \<Rightarrow> error + (ptr \<times> StackAllocator)" where
  "StackAllocator_Allocate s sz alignment =
     (if alignment = 0 then Inl DivideByZero
      else
        let headerSize = StackAllocator_headerSize;
            padding = StackAllocator_padding s alignment;
            newOffset = StackAllocator_newOffset s sz alignment
        in if newOffset > stk_m_bufferSize s then Inr (nullptr, s)
           else
             let alignedAddress = stk_m_buffer s + stk_m_offset s + headerSize + padding;
                 header = alignedAddress - headerSize;
                 mem1 = store64 (stk_mem s) header sz;
                 mem2 = store64 mem1 (header + 8) (headerSize + padding)
             in Inr (alignedAddress,
                     s\<lparr>stk_mem := mem2, stk_m_offset := newOffset,
                       stk_m_allocationCount := stk_m_allocationCount s + 1,
                       stk_m_peakUsage := max (stk_m_peakUsage s) newOffset\<rparr>))"

definition StackAllocator_Free :: "StackAllocator \<Rightarrow> ptr \<Rightarrow> StackAllocator" where
  "StackAllocator_Free s p =
     (if p = nullptr then s
      else
        let header = p - StackAllocator_headerSize
        in s\<lparr>stk_m_offset := p - stk_m_buffer s - load64 (stk_mem s) (header + 8),
             stk_m_allocationCount := stk_m_allocationCount s - 1\<rparr>)"

definition StackAllocator_Owns :: "StackAllocator \<Rightarrow> ptr \<Rightarrow> bool" where
  "StackAllocator_Owns s p \<longleftrightarrow> p \<ge> stk_m_buffer s \<and> p < stk_m_buffer s + stk_m_offset s"

definition StackAllocator_GetAllocationSize :: "StackAllocator \<Rightarrow> ptr \<Rightarrow> size_t" where
  "StackAllocator_GetAllocationSize s p =
     (if \<not> StackAllocator_Owns s p then 0
      else load64 (stk_mem s) (p - StackAllocator_headerSize))"

definition StackAllocator_GetTotalAllocated :: "StackAllocator \<Rightarrow> size_t" where
  "StackAllocator_GetTotalAllocated s = stk_m_offset s"

definition StackAllocator_GetPeakUsage :: "StackAllocator \<Rightarrow> size_t" where
  "StackAllocator_GetPeakUsage s = stk_m_peakUsage s"

definition StackAllocator_Reset :: "StackAllocator \<Rightarrow> StackAllocator" where
  "StackAllocator_Reset s =
     s\<lparr>stk_m_offset := 0, stk_m_allocationCount := 0, stk_m_markers := []\<rparr>"

definition StackAllocator_GetAllocationCount :: "StackAllocator \<Rightarrow> size_t" where
  "StackAllocator_GetAllocationCount s = stk_m_allocationCount s"

definition StackAllocator_ValidateInternalState :: "StackAllocator \<Rightarrow> bool" where
  "StackAllocator_ValidateInternalState s \<longleftrightarrow> stk_m_offset s \<le> stk_m_bufferSize s"

definition StackAllocator_GetMarker :: "StackAllocator \<Rightarrow> size_t" where
  "StackAllocator_GetMarker s = stk_m_offset s"

definition StackAllocator_FreeToMarker :: "StackAllocator \<Rightarrow> size_t \<Rightarrow> StackAllocator" where
  "StackAllocator_FreeToMarker s marker =
     (if marker \<le> stk_m_offset s then s\<lparr>stk_m_offset := marker\<rparr> else s)"

definition StackAllocator_PushMarker :: "StackAllocator \<Rightarrow> StackAllocator" where
  "StackAllocator_PushMarker s = s\<lparr>stk_m_markers := stk_m_markers s @ [stk_m_offset s]\<rparr>"

definition StackAllocator_PopMarker :: "StackAllocator \<Rightarrow> StackAllocator" where
  "StackAllocator_PopMarker s =
     (if stk_m_markers s \<noteq> []
      then (StackAllocator_FreeToMarker s (last (stk_m_markers s)))
             \<lparr>stk_m_markers := butlast (stk_m_markers s)\<rparr>
      else s)"

text \<open>
  A run of allocations, each on the state the one before left; it stops at the first
  that raises, and collects the returned pointers (null ones included).
\<close>

fun StackAllocator_Allocate_all ::
  "StackAllocator \<Rightarrow> (size_t \<times> size_t) list \<Rightarrow> error + (ptr list \<times> StackAllocator)" where
  "StackAllocator_Allocate_all s [] = Inr ([], s)"
| "StackAllocator_Allocate_all s ((sz, alignment) # rs) =
     (case StackAllocator_Allocate s sz alignment of
        Inl e \<Rightarrow> Inl e
      | Inr (p, s') \<Rightarrow>
          (case StackAllocator_Allocate_all s' rs of
             Inl e \<Rightarrow> Inl e
           | Inr (ps, s'') \<Rightarrow> Inr (p # ps, s'')))"

section \<open>PoolAllocator\<close>

text \<open>
  \<open>Block\<close> is \<open>{Block* next}\<close>: the link of an idle block is the 64-bit word at the
  block's first byte. \<open>lock()\<close> and \<open>unlock()\<close> are left out: they touch the mutex only,
  and only when \<open>threadSafe\<close> is set.
\<close>

record Pool =
  memory :: ptr
  blockSize :: size_t
  blockCount :: size_t
  freeList :: ptr

record PoolAllocator =
  pools :: "Pool list"
  totalAllocated :: size_t
  peakUsage :: size_t
  allocationCount :: size_t
  name :: string
  threadSafe :: bool
  pool_mem :: memory

text \<open>
  The loop that threads the free list through a slab, used by the constructor and by
  \<open>Reset\<close>: block \<open>i\<close> is linked in front of the blocks before it, for
  \<open>i = 0, ..., blockCount - 1\<close>. The result is the memory and the head of the list.
\<close>

definition Pool_linkBlocks :: "memory \<Rightarrow> ptr \<Rightarrow> size_t \<Rightarrow> size_t \<Rightarrow> memory \<times> ptr" where
  "Pool_linkBlocks mem start bSize bCount =
     foldl (\<lambda>(m, fl) i. let block = start + of_nat i * bSize in (store64 m block fl, block))
       (mem, nullptr) [0..<unat bCount]"

text \<open>
  The constructor. Each configuration \<open>(blockSize, blockCount)\<close> comes with the address
  that \<open>std::malloc(blockSize * blockCount)\<close> returned for it, 0 when it failed.
\<close>

fun PoolAllocator_addPools ::
  "memory \<Rightarrow> Pool list \<Rightarrow> ((size_t \<times> size_t) \<times> ptr) list \<Rightarrow> error + (Pool list \<times> memory)" where
  "PoolAllocator_addPools mem ps [] = Inr (ps, mem)"
| "PoolAllocator_addPools mem ps (((bSize, bCount), mallocd) # cfgs) =
     (if mallocd = nullptr then Inl BadAlloc
      else
        let (mem', fl) = Pool_linkBlocks mem mallocd bSize bCount
        in PoolAllocator_addPools mem'
             (ps @ [\<lparr>memory = mallocd, blockSize = bSize, blockCount = bCount, freeList = fl\<rparr>])
             cfgs)"

definition PoolAllocator_new ::
  "memory \<Rightarrow> ((size_t \<times> size_t) \<times> ptr) list \<Rightarrow> error + PoolAllocator" where
  "PoolAllocator_new mem poolConfigs =
     (case PoolAllocator_addPools mem [] poolConfigs of
        Inl e \<Rightarrow> Inl e
      | Inr (ps, mem') \<Rightarrow>
          Inr \<lparr>pools = ps, totalAllocated = 0, peakUsage = 0, allocationCount = 0,
               name = [], threadSafe = False, pool_mem = mem'\<rparr>)"

text \<open>\<open>findPool\<close> returns a reference into \<open>pools\<close>: here the index of the pool.\<close>

fun findPool_from :: "nat \<Rightarrow> Pool list \<Rightarrow> size_t \<Rightarrow> error + nat" where
  "findPool_from i [] sz = Inl (RuntimeError ''No suitable pool found'')"
| "findPool_from i (pool # rest) sz =
     (if sz \<le> blockSize pool then Inr i else findPool_from (Suc i) rest sz)"

definition findPool :: "PoolAllocator \<Rightarrow> size_t \<Rightarrow> error + nat" where
  "findPool s sz = findPool_from 0 (pools s) sz"

definition PoolAllocator_Allocate ::
  "PoolAllocator \<Rightarrow> size_t \<Rightarrow> size_t \<Rightarrow> error + (ptr \<times> PoolAllocator)" where
  "PoolAllocator_Allocate s sz alignment =
     (case findPool s sz of
        Inl e \<Rightarrow> Inl e
      | Inr i \<Rightarrow>
          let pool = pools s ! i
          in if freeList pool = nullptr then Inr (nullptr, s)
             else
               let block = freeList pool;
                   pool' = pool\<lparr>freeList := load64 (pool_mem s) block\<rparr>;
                   tot = totalAllocated s + blockSize pool
               in Inr (block,
                       s\<lparr>pools := (pools s)[i := pool'],
                         totalAllocated := tot,
                         allocationCount := allocationCount s + 1,
                         peakUsage := max (peakUsage s) tot\<rparr>))"

text \<open>The address test the loops of \<open>Free\<close>, \<open>GetAllocationSize\<close> and \<open>Owns\<close> make.\<close>

definition Pool_contains :: "Pool \<Rightarrow> ptr \<Rightarrow> bool" where
  "Pool_contains pool p \<longleftrightarrow>
     p \<ge> memory pool \<and> p < memory pool + blockSize pool * blockCount pool"

fun PoolAllocator_Free_loop ::
  "Pool list \<Rightarrow> ptr \<Rightarrow> memory \<times> size_t \<times> size_t \<Rightarrow> Pool list \<times> memory \<times> size_t \<times> size_t" where
  "PoolAllocator_Free_loop [] p (mem, tot, cnt) = ([], mem, tot, cnt)"
| "PoolAllocator_Free_loop (pool # rest) p (mem, tot, cnt) =
     (if Pool_contains pool p
      then (pool\<lparr>freeList := p\<rparr> # rest, store64 mem p (freeList pool),
            tot - blockSize pool, cnt - 1)
      else
        let (rest', r) = PoolAllocator_Free_loop rest p (mem, tot, cnt)
        in (pool # rest', r))"

definition PoolAllocator_Free :: "PoolAllocator \<Rightarrow> ptr \<Rightarrow> PoolAllocator" where
  "PoolAllocator_Free s p =
     (if p = nullptr then s
      else
        let (ps, mem, tot, cnt) =
              PoolAllocator_Free_loop (pools s) p (pool_mem s, totalAllocated s, allocationCount s)
        in s\<lparr>pools := ps, pool_mem := mem, totalAllocated := tot, allocationCount := cnt\<rparr>)"

fun PoolAllocator_GetAllocationSize_loop :: "Pool list \<Rightarrow> ptr \<Rightarrow> size_t" where
  "PoolAllocator_GetAllocationSize_loop [] p = 0"
| "PoolAllocator_GetAllocationSize_loop (pool # rest) p =
     (if Pool_contains pool p then blockSize pool
      else PoolAllocator_GetAllocationSize_loop rest p)"

definition PoolAllocator_GetAllocationSize :: "PoolAllocator \<Rightarrow> ptr \<Rightarrow> size_t" where
  "PoolAllocator_GetAllocationSize s p = PoolAllocator_GetAllocationSize_loop (pools s) p"

fun PoolAllocator_Owns_loop :: "Pool list \<Rightarrow> ptr \<Rightarrow> bool" where
  "PoolAllocator_Owns_loop [] p = False"
| "PoolAllocator_Owns_loop (pool # rest) p =
     (if Pool_contains pool p then True else PoolAllocator_Owns_loop rest p)"

definition PoolAllocator_Owns :: "PoolAllocator \<Rightarrow> ptr \<Rightarrow> bool" where
  "PoolAllocator_Owns s p = PoolAllocator_Owns_loop (pools s) p"

definition PoolAllocator_GetTotalAllocated :: "PoolAllocator \<Rightarrow> size_t" where
  "PoolAllocator_GetTotalAllocated s = totalAllocated s"

definition PoolAllocator_GetPeakUsage :: "PoolAllocator \<Rightarrow> size_t" where
  "PoolAllocator_GetPeakUsage s = peakUsage s"

definition PoolAllocator_GetAllocationCount :: "PoolAllocator \<Rightarrow> size_t" where
  "PoolAllocator_GetAllocationCount s = allocationCount s"

fun PoolAllocator_Reset_loop :: "memory \<Rightarrow> Pool list \<Rightarrow> Pool list \<times> memory" where
  "PoolAllocator_Reset_loop mem [] = ([], mem)"
| "PoolAllocator_Reset_loop mem (pool # rest) =
     (let (mem', fl) = Pool_linkBlocks mem (memory pool) (blockSize pool) (blockCount pool);
          (rest', mem'') = PoolAllocator_Reset_loop mem' rest
      in (pool\<lparr>freeList := fl\<rparr> # rest', mem''))"

definition PoolAllocator_Reset :: "PoolAllocator \<Rightarrow> PoolAllocator" where
  "PoolAllocator_Reset s =
     (let (ps, mem) = PoolAllocator_Reset_loop (pool_mem s) (pools s)
      in s\<lparr>pools := ps, pool_mem := mem, totalAllocated := 0, allocationCount := 0\<rparr>)"

definition PoolAllocator_ValidateInternalState :: "PoolAllocator \<Rightarrow> bool" where
  "PoolAllocator_ValidateInternalState s = True"

section \<open>FreeListAllocator\<close>

text \<open>
  \<open>AllocationHeader\<close> is \<open>{size_t size; uint8_t padding}\<close> and \<open>FreeBlock\<close> is
  \<open>{size_t size; FreeBlock* next}\<close>: 16 bytes each, the second member at offset 8.
\<close>

definition sizeof_AllocationHeader :: size_t where
  "sizeof_AllocationHeader = 16"

definition sizeof_FreeBlock :: size_t where
  "sizeof_FreeBlock = 16"

definition MIN_BLOCK_SIZE :: size_t where
  "MIN_BLOCK_SIZE = sizeof_FreeBlock"

record FreeListAllocator =
  fl_m_buffer :: ptr
  fl_m_bufferSize :: size_t
  fl_m_freeList :: ptr
  fl_m_name :: string
  fl_m_threadSafe :: bool
  fl_m_allocatedSize :: size_t
  fl_m_peakUsage :: size_t
  fl_m_allocationCount :: size_t
  fl_mem :: memory

definition FreeListAllocator_new :: "memory \<Rightarrow> ptr \<Rightarrow> size_t \<Rightarrow> FreeListAllocator" where
  "FreeListAllocator_new mem buf bufferSize =
     (let mem1 = store64 mem buf bufferSize;
          mem2 = store64 mem1 (buf + 8) nullptr
      in \<lparr>fl_m_buffer = buf, fl_m_bufferSize = bufferSize, fl_m_freeList = buf,
          fl_m_name = ''FreeListAllocator'', fl_m_threadSafe = False,
          fl_m_allocatedSize = 0, fl_m_peakUsage = 0, fl_m_allocationCount = 0,
          fl_mem = mem2\<rparr>)"

text \<open>
  The body of the \<open>if (current->size >= requiredSize)\<close> of \<open>Allocate\<close>: unlink or split
  the block \<open>current\<close>, write the header, update the counters, return the aligned address.
\<close>

definition FreeListAllocator_Allocate_take ::
  "FreeListAllocator \<Rightarrow> ptr \<Rightarrow> ptr \<Rightarrow> ptr \<Rightarrow> size_t \<Rightarrow> size_t \<Rightarrow> ptr \<times> FreeListAllocator" where
  "FreeListAllocator_Allocate_take s prev current alignedAddress alignmentPadding requiredSize0 =
     (let mem = fl_mem s;
          (requiredSize, mem1, fl1) =
            (if load64 mem current - requiredSize0 \<le> MIN_BLOCK_SIZE
             then
               (load64 mem current,
                if prev \<noteq> nullptr
                then (store64 mem (prev + 8) (load64 mem (current + 8)), fl_m_freeList s)
                else (mem, load64 mem (current + 8)))
             else
               let newBlock = current + requiredSize0;
                   memA = store64 mem newBlock (load64 mem current - requiredSize0);
                   memB = store64 memA (newBlock + 8) (load64 memA (current + 8))
               in (requiredSize0,
                   if prev \<noteq> nullptr
                   then (store64 memB (prev + 8) newBlock, fl_m_freeList s)
                   else (memB, newBlock)));
          header = alignedAddress - sizeof_AllocationHeader;
          mem2 = store64 mem1 header requiredSize;
          mem3 = store8 mem2 (header + 8) (ucast alignmentPadding);
          allocatedSize = requiredSize - sizeof_FreeBlock;
          allocated = fl_m_allocatedSize s + allocatedSize
      in (alignedAddress,
          s\<lparr>fl_mem := mem3, fl_m_freeList := fl1,
            fl_m_allocatedSize := allocated,
            fl_m_allocationCount := fl_m_allocationCount s + 1,
            fl_m_peakUsage := max (fl_m_peakUsage s) allocated\<rparr>))"

text \<open>
  The \<open>while (current != nullptr)\<close> of \<open>Allocate\<close>. The list lives in memory and may be
  cyclic, so the loop is a partial function: \<open>None\<close> is the loop that never ends.
\<close>

partial_function (option) FreeListAllocator_Allocate_loop ::
  "FreeListAllocator \<Rightarrow> size_t \<Rightarrow> size_t \<Rightarrow> ptr \<Rightarrow> ptr \<Rightarrow> (ptr \<times> FreeListAllocator) option" where
  "FreeListAllocator_Allocate_loop s sz alignment prev current =
     (if current = nullptr then Some (nullptr, s)
      else
        let totalSize = sz + sizeof_AllocationHeader;
            headerAddress = current + sizeof_FreeBlock;
            alignedAddress =
              (headerAddress + sizeof_AllocationHeader + alignment - 1) AND NOT (alignment - 1);
            alignmentPadding = alignedAddress - headerAddress;
            requiredSize = totalSize + alignmentPadding
        in if load64 (fl_mem s) current \<ge> requiredSize
           then Some (FreeListAllocator_Allocate_take s prev current alignedAddress
                        alignmentPadding requiredSize)
           else FreeListAllocator_Allocate_loop s sz alignment current
                  (load64 (fl_mem s) (current + 8)))"

declare FreeListAllocator_Allocate_loop.simps [code]

definition FreeListAllocator_Allocate ::
  "FreeListAllocator \<Rightarrow> size_t \<Rightarrow> size_t \<Rightarrow> (ptr \<times> FreeListAllocator) option" where
  "FreeListAllocator_Allocate s sz alignment =
     FreeListAllocator_Allocate_loop s sz alignment nullptr (fl_m_freeList s)"

text \<open>The \<open>while (current != nullptr && current < blockToFree)\<close> of \<open>Free\<close>.\<close>

partial_function (option) FreeListAllocator_Free_walk ::
  "memory \<Rightarrow> ptr \<Rightarrow> ptr \<Rightarrow> ptr \<Rightarrow> (ptr \<times> ptr) option" where
  "FreeListAllocator_Free_walk mem blockToFree prev current =
     (if current \<noteq> nullptr \<and> current < blockToFree
      then FreeListAllocator_Free_walk mem blockToFree current (load64 mem (current + 8))
      else Some (prev, current))"

declare FreeListAllocator_Free_walk.simps [code]

definition FreeListAllocator_Free :: "FreeListAllocator \<Rightarrow> ptr \<Rightarrow> FreeListAllocator option" where
  "FreeListAllocator_Free s p =
     (if p = nullptr then Some s
      else
        let header = p - sizeof_AllocationHeader;
            blockToFree = p - sizeof_AllocationHeader - ucast (load8 (fl_mem s) (header + 8));
            mem1 = store64 (fl_mem s) blockToFree (load64 (fl_mem s) header)
        in case FreeListAllocator_Free_walk mem1 blockToFree nullptr (fl_m_freeList s) of
             None \<Rightarrow> None
           | Some (prev, current) \<Rightarrow>
               let (mem2, fl2) =
                     (if prev \<noteq> nullptr
                      then (store64 mem1 (prev + 8) blockToFree, fl_m_freeList s)
                      else (mem1, blockToFree));
                   mem3 = store64 mem2 (blockToFree + 8) current;
                   mem5 =
                     (if blockToFree + load64 mem3 blockToFree = current
                      then
                        let mem4 = store64 mem3 blockToFree
                                     (load64 mem3 blockToFree + load64 mem3 current)
                        in store64 mem4 (blockToFree + 8) (load64 mem4 (current + 8))
                      else mem3);
                   mem7 =
                     (if prev \<noteq> nullptr \<and> prev + load64 mem5 prev = blockToFree
                      then
                        let mem6 = store64 mem5 prev (load64 mem5 prev + load64 mem5 blockToFree)
                        in store64 mem6 (prev + 8) (load64 mem6 (blockToFree + 8))
                      else mem5);
                   freedSize = load64 mem7 header - sizeof_FreeBlock
               in Some (s\<lparr>fl_mem := mem7, fl_m_freeList := fl2,
                          fl_m_allocatedSize := fl_m_allocatedSize s - freedSize,
                          fl_m_allocationCount := fl_m_allocationCount s - 1\<rparr>))"

definition FreeListAllocator_GetAllocationSize :: "FreeListAllocator \<Rightarrow> ptr \<Rightarrow> size_t" where
  "FreeListAllocator_GetAllocationSize s p =
     (if p = nullptr then 0
      else
        let header = p - sizeof_AllocationHeader
        in load64 (fl_mem s) header - sizeof_AllocationHeader
             - ucast (load8 (fl_mem s) (header + 8)))"

definition FreeListAllocator_GetTotalAllocated :: "FreeListAllocator \<Rightarrow> size_t" where
  "FreeListAllocator_GetTotalAllocated s = fl_m_allocatedSize s"

definition FreeListAllocator_GetPeakUsage :: "FreeListAllocator \<Rightarrow> size_t" where
  "FreeListAllocator_GetPeakUsage s = fl_m_peakUsage s"

definition FreeListAllocator_GetAllocationCount :: "FreeListAllocator \<Rightarrow> size_t" where
  "FreeListAllocator_GetAllocationCount s = fl_m_allocationCount s"

definition FreeListAllocator_Reset :: "FreeListAllocator \<Rightarrow> FreeListAllocator" where
  "FreeListAllocator_Reset s =
     (let fl = fl_m_buffer s;
          mem1 = store64 (fl_mem s) fl (fl_m_bufferSize s);
          mem2 = store64 mem1 (fl + 8) nullptr
      in s\<lparr>fl_m_freeList := fl, fl_mem := mem2, fl_m_allocatedSize := 0,
           fl_m_allocationCount := 0, fl_m_peakUsage := 0\<rparr>)"

definition FreeListAllocator_Owns :: "FreeListAllocator \<Rightarrow> ptr \<Rightarrow> bool" where
  "FreeListAllocator_Owns s p \<longleftrightarrow>
     p \<ge> fl_m_buffer s \<and> p < fl_m_buffer s + fl_m_bufferSize s"

text \<open>
  The loop of \<open>ValidateInternalState\<close>, from \<open>block\<close> on with the free bytes counted so
  far; it returns early with false, or ends with the comparison of the sum.
\<close>

partial_function (option) FreeListAllocator_Validate_loop ::
  "FreeListAllocator \<Rightarrow> ptr \<Rightarrow> size_t \<Rightarrow> bool option" where
  "FreeListAllocator_Validate_loop s block totalFreeSize0 =
     (if block = nullptr
      then Some (totalFreeSize0 + fl_m_allocatedSize s = fl_m_bufferSize s)
      else
        let totalFreeSize = totalFreeSize0 + load64 (fl_mem s) block;
            nxt = load64 (fl_mem s) (block + 8)
        in if nxt \<noteq> nullptr \<and> block + load64 (fl_mem s) block > nxt then Some False
           else FreeListAllocator_Validate_loop s nxt totalFreeSize)"

declare FreeListAllocator_Validate_loop.simps [code]

definition FreeListAllocator_ValidateInternalState :: "FreeListAllocator \<Rightarrow> bool option" where
  "FreeListAllocator_ValidateInternalState s =
     FreeListAllocator_Validate_loop s (fl_m_freeList s) 0"

text \<open>
  The sum of the sizes of the blocks on the free list, as the loops of
  \<open>GetFragmentationPercentage\<close> and \<open>GetDetailedStats\<close> compute \<open>freeMemory\<close>.
\<close>

partial_function (option) FreeListAllocator_freeMemory_loop ::
  "memory \<Rightarrow> ptr \<Rightarrow> size_t \<Rightarrow> size_t option" where
  "FreeListAllocator_freeMemory_loop mem block freeMemory =
     (if block = nullptr then Some freeMemory
      else FreeListAllocator_freeMemory_loop mem (load64 mem (block + 8))
             (freeMemory + load64 mem block))"

declare FreeListAllocator_freeMemory_loop.simps [code]

definition FreeListAllocator_freeMemory :: "FreeListAllocator \<Rightarrow> size_t option" where
  "FreeListAllocator_freeMemory s =
     FreeListAllocator_freeMemory_loop (fl_mem s) (fl_m_freeList s) 0"

section \<open>Example states\<close>

definition mem0 :: memory where
  "mem0 = (\<lambda>_. 0)"

text \<open>Scenario S1: a linear allocator of 128 bytes at address 4096 after \<open>Allocate(100, 8)\<close>.\<close>

definition S1_linear :: LinearAllocator where
  "S1_linear = (LinearAllocator_new mem0 4096 128)
     \<lparr>lin_m_offset := 100, lin_m_allocationCount := 1, lin_m_peakUsage := 100\<rparr>"

text \<open>A stack allocator of 128 bytes at address 4096 after \<open>Allocate(84, 8)\<close>.\<close>

definition S1_stack :: StackAllocator where
  "S1_stack = (StackAllocator_new mem0 4096 128)
     \<lparr>stk_mem := store64 (store64 mem0 4096 84) 4104 16, stk_m_offset := 100,
      stk_m_allocationCount := 1, stk_m_peakUsage := 100\<rparr>"

section \<open>Side conditions and scenarios\<close>

text \<open>
  A buffer that \<open>new uint8_t[bufferSize]\<close> can have returned: it does not start at the
  null address and its one-past-the-end address does not wrap around.
\<close>

definition buffer_ok :: "ptr \<Rightarrow> size_t \<Rightarrow> bool" where
  "buffer_ok buf bufferSize \<longleftrightarrow>
     buf \<noteq> nullptr \<and> unat buf + unat bufferSize < 2 ^ 64"

definition power_of_two :: "size_t \<Rightarrow> bool" where
  "power_of_two a \<longleftrightarrow> (\<exists>k \<in> {0..<64}. a = 2 ^ k)"

text \<open>The sums of \<open>Allocate\<close> taken in the natural numbers stay below \<open>2 ^ 64\<close>.\<close>

definition LinearAllocator_no_wrap :: "LinearAllocator \<Rightarrow> size_t \<Rightarrow> size_t \<Rightarrow> bool" where
  "LinearAllocator_no_wrap s sz alignment \<longleftrightarrow>
     unat (lin_m_offset s) + unat (LinearAllocator_padding s alignment) + unat sz < 2 ^ 64"

definition StackAllocator_no_wrap :: "StackAllocator \<Rightarrow> size_t \<Rightarrow> size_t \<Rightarrow> bool" where
  "StackAllocator_no_wrap s sz alignment \<longleftrightarrow>
     unat (stk_m_offset s) + (unat sz + unat StackAllocator_headerSize)
       + unat (StackAllocator_padding s alignment) < 2 ^ 64"

fun StackAllocator_no_wrap_all :: "StackAllocator \<Rightarrow> (size_t \<times> size_t) list \<Rightarrow> bool" where
  "StackAllocator_no_wrap_all s [] = True"
| "StackAllocator_no_wrap_all s ((sz, alignment) # rs) =
     (StackAllocator_no_wrap s sz alignment \<and>
      (case StackAllocator_Allocate s sz alignment of
         Inl e \<Rightarrow> True
       | Inr (p, s') \<Rightarrow> StackAllocator_no_wrap_all s' rs))"

text \<open>
  The values \<open>alignedAddress\<close> and \<open>requiredSize\<close> that the loop of
  \<open>FreeListAllocator::Allocate\<close> computes for the block \<open>current\<close>.
\<close>

definition FreeListAllocator_alignedAddress :: "ptr \<Rightarrow> size_t \<Rightarrow> ptr" where
  "FreeListAllocator_alignedAddress current alignment =
     (current + sizeof_FreeBlock + sizeof_AllocationHeader + alignment - 1)
       AND NOT (alignment - 1)"

definition FreeListAllocator_requiredSize :: "ptr \<Rightarrow> size_t \<Rightarrow> size_t \<Rightarrow> size_t" where
  "FreeListAllocator_requiredSize current sz alignment =
     sz + sizeof_AllocationHeader
       + (FreeListAllocator_alignedAddress current alignment - (current + sizeof_FreeBlock))"

text \<open>
  \<open>linked mem off p bs\<close>: following the pointers stored at offset \<open>off\<close> of each node,
  the list that starts at \<open>p\<close> visits exactly the nodes \<open>bs\<close> and ends with null.
\<close>

fun linked :: "memory \<Rightarrow> ptr \<Rightarrow> ptr \<Rightarrow> ptr list \<Rightarrow> bool" where
  "linked mem off p [] \<longleftrightarrow> p = nullptr"
| "linked mem off p (b # bs) \<longleftrightarrow> p = b \<and> b \<noteq> nullptr \<and> linked mem off (load64 mem (b + off)) bs"

text \<open>The free list of a free-list allocator is \<open>bs\<close>, each block inside the buffer.\<close>

definition FreeListAllocator_block_in_buffer :: "FreeListAllocator \<Rightarrow> ptr \<Rightarrow> bool" where
  "FreeListAllocator_block_in_buffer s b \<longleftrightarrow>
     fl_m_buffer s \<le> b \<and>
     unat b + unat (load64 (fl_mem s) b) \<le> unat (fl_m_buffer s) + unat (fl_m_bufferSize s)"

definition FreeListAllocator_freeList_is :: "FreeListAllocator \<Rightarrow> ptr list \<Rightarrow> bool" where
  "FreeListAllocator_freeList_is s bs \<longleftrightarrow>
     linked (fl_mem s) 8 (fl_m_freeList s) bs \<and>
     (\<forall>b \<in> set bs. FreeListAllocator_block_in_buffer s b)"

text \<open>The free list of every pool is the list given for it, each block inside the slab.\<close>

definition Pool_freeList_is :: "memory \<Rightarrow> Pool \<Rightarrow> ptr list \<Rightarrow> bool" where
  "Pool_freeList_is mem pool bs \<longleftrightarrow>
     linked mem 0 (freeList pool) bs \<and> (\<forall>b \<in> set bs. Pool_contains pool b)"

definition PoolAllocator_freeLists_are :: "PoolAllocator \<Rightarrow> ptr list list \<Rightarrow> bool" where
  "PoolAllocator_freeLists_are s bss \<longleftrightarrow>
     length bss = length (pools s) \<and>
     (\<forall>i < length (pools s). Pool_freeList_is (pool_mem s) (pools s ! i) (bss ! i))"

text \<open>
  Scenario S3 on a buffer of 1024 bytes at \<open>buf\<close>: three allocations of 200 bytes, freed in
  the order second, first, third, then an allocation of 900 bytes. The result is the three
  pointers, the state after the last \<open>Free\<close> and the last pointer.
\<close>

definition S3_scenario ::
  "memory \<Rightarrow> ptr \<Rightarrow> (ptr \<times> ptr \<times> ptr \<times> FreeListAllocator \<times> ptr) option" where
  "S3_scenario mem buf =
     (case FreeListAllocator_Allocate (FreeListAllocator_new mem buf 1024) 200 8 of
        None \<Rightarrow> None
      | Some (a, s1) \<Rightarrow>
     (case FreeListAllocator_Allocate s1 200 8 of
        None \<Rightarrow> None
      | Some (b, s2) \<Rightarrow>
     (case FreeListAllocator_Allocate s2 200 8 of
        None \<Rightarrow> None
      | Some (c, s3) \<Rightarrow>
     (case FreeListAllocator_Free s3 b of
        None \<Rightarrow> None
      | Some s4 \<Rightarrow>
     (case FreeListAllocator_Free s4 a of
        None \<Rightarrow> None
      | Some s5 \<Rightarrow>
     (case FreeListAllocator_Free s5 c of
        None \<Rightarrow> None
      | Some s6 \<Rightarrow>
     (case FreeListAllocator_Allocate s6 900 8 of
        None \<Rightarrow> None
      | Some (p, s7) \<Rightarrow> Some (a, b, c, s6, p))))))))"

text \<open>Scenario S5: the pools \<open>(32, 4)\<close> and \<open>(128, 2)\<close>, their slabs at 4096 and 8192.\<close>

definition S5_pools :: "Pool list" where
  "S5_pools =
     [\<lparr>memory = 4096, blockSize = 32, blockCount = 4, freeList = 4192\<rparr>,
      \<lparr>memory = 8192, blockSize = 128, blockCount = 2, freeList = 8320\<rparr>]"

definition S5_mem :: memory where
  "S5_mem = store64 (store64 (store64 (store64 (store64 (store64 mem0
      4096 nullptr) 4128 4096) 4160 4128) 4192 4160) 8192 nullptr) 8320 8192"

definition S5_pool :: PoolAllocator where
  "S5_pool = \<lparr>pools = S5_pools, totalAllocated = 0, peakUsage = 0, allocationCount = 0,
               name = [], threadSafe = False, pool_mem = S5_mem\<rparr>"

text \<open>What the loop of \<open>FreeListAllocator::Allocate\<close> can return.\<close>

definition FreeListAllocator_took ::
  "FreeListAllocator \<Rightarrow> size_t \<Rightarrow> size_t \<Rightarrow> ptr \<times> FreeListAllocator \<Rightarrow> bool" where
  "FreeListAllocator_took s sz alignment r \<longleftrightarrow>
     r = (nullptr, s) \<or>
     (\<exists>pv c. c \<noteq> nullptr \<and>
        FreeListAllocator_requiredSize c sz alignment \<le> load64 (fl_mem s) c \<and>
        r = FreeListAllocator_Allocate_take s pv c
              (FreeListAllocator_alignedAddress c alignment)
              (FreeListAllocator_alignedAddress c alignment - (c + sizeof_FreeBlock))
              (FreeListAllocator_requiredSize c sz alignment))"

definition FreeListAllocator_no_wrap :: "FreeListAllocator \<Rightarrow> size_t \<Rightarrow> size_t \<Rightarrow> bool" where
  "FreeListAllocator_no_wrap s sz alignment \<longleftrightarrow>
     unat (fl_m_buffer s) + unat (fl_m_bufferSize s) + unat alignment + 32 \<le> 2 ^ 64 \<and>
     unat sz + unat alignment + 32 \<le> 2 ^ 64"

text \<open>
  A linear allocator of 128 bytes at address 4096 after two calls \<open>Allocate(10, 1)\<close>, and
  the pools of scenario S5 after four allocations from the first pool.
\<close>

definition Linear_two_allocations :: LinearAllocator where
  "Linear_two_allocations = (LinearAllocator_new mem0 4096 128)
     \<lparr>lin_m_offset := 20, lin_m_allocationCount := 2, lin_m_peakUsage := 20\<rparr>"

definition S5_pool_exhausted :: PoolAllocator where
  "S5_pool_exhausted = S5_pool
     \<lparr>pools := [\<lparr>memory = 4096, blockSize = 32, blockCount = 4, freeList = nullptr\<rparr>,
                 \<lparr>memory = 8192, blockSize = 128, blockCount = 2, freeList = 8320\<rparr>],
      totalAllocated := 128, peakUsage := 128, allocationCount := 4\<rparr>"

section \<open>Memory\<close>

lemma word64_bytes:
  fixes v :: "64 word"
  shows "ucast (ucast v :: 8 word) OR push_bit 8 (ucast (ucast (drop_bit 8 v) :: 8 word))
     OR push_bit 16 (ucast (ucast (drop_bit 16 v) :: 8 word))
     OR push_bit 24 (ucast (ucast (drop_bit 24 v) :: 8 word))
     OR push_bit 32 (ucast (ucast (drop_bit 32 v) :: 8 word))
     OR push_bit 40 (ucast (ucast (drop_bit 40 v) :: 8 word))
     OR push_bit 48 (ucast (ucast (drop_bit 48 v) :: 8 word))
     OR push_bit 56 (ucast (ucast (drop_bit 56 v) :: 8 word)) = v"
proof (rule bit_word_eqI)
  fix n :: nat
  assume "n < LENGTH(64)"
  then consider "n < 8" | "8 \<le> n" "n < 16" | "16 \<le> n" "n < 24" | "24 \<le> n" "n < 32"
    | "32 \<le> n" "n < 40" | "40 \<le> n" "n < 48" | "48 \<le> n" "n < 56" | "56 \<le> n" "n < 64"
    by fastforce
  then show "bit ((ucast (ucast v :: 8 word) :: 64 word)
     OR push_bit 8 (ucast (ucast (drop_bit 8 v) :: 8 word))
     OR push_bit 16 (ucast (ucast (drop_bit 16 v) :: 8 word))
     OR push_bit 24 (ucast (ucast (drop_bit 24 v) :: 8 word))
     OR push_bit 32 (ucast (ucast (drop_bit 32 v) :: 8 word))
     OR push_bit 40 (ucast (ucast (drop_bit 40 v) :: 8 word))
     OR push_bit 48 (ucast (ucast (drop_bit 48 v) :: 8 word))
     OR push_bit 56 (ucast (ucast (drop_bit 56 v) :: 8 word))) n = bit v n"
    by cases (auto simp: bit_simps)
qed

text \<open>A 64-bit member reads back what was written to it.\<close>

lemma load64_store64_same: "load64 (store64 m a v) a = v"
  unfolding load64_def store64_def
  by (simp add: word64_bytes)

lemma store64_apart: "8 \<le> unat (x - a) \<Longrightarrow> store64 m a v x = m x"
  by (auto simp: store64_def)

lemma apart_shift:
  fixes d :: "64 word"
  assumes "8 \<le> unat d" "8 \<le> unat (- d)" "j < 8"
  shows "8 \<le> unat (d + of_nat j)"
proof -
  have "d \<noteq> 0" using assms(1) by auto
  then have "unat d \<noteq> 0" by (simp add: unat_eq_zero)
  then have "unat (- d) = 2 ^ 64 - unat d"
    using unat_sub_if_size [of 0 d] by (simp add: word_size)
  then have "unat d + j < 2 ^ 64" using assms by simp
  then have "unat (d + of_nat j) = unat d + j"
    using assms(3) by (simp add: unat_word_ariths unat_of_nat)
  then show ?thesis using assms(1) by simp
qed

text \<open>Writes to bytes outside a member leave it as it was.\<close>

lemma load64_store64_other:
  assumes "8 \<le> unat (b - a)" "8 \<le> unat (a - b)"
  shows "load64 (store64 m a v) b = load64 m b"
proof -
  have *: "8 \<le> unat (b - a + of_nat j)" if "j < 8" for j
    using apart_shift [of "b - a" j] assms that by simp
  have "store64 m a v (b + of_nat j) = m (b + of_nat j)" if "j < 8" for j
    using * [OF that] by (intro store64_apart) (simp add: algebra_simps)
  from this [of 0] this [of 1] this [of 2] this [of 3] this [of 4] this [of 5] this [of 6] this [of 7]
  show ?thesis by (simp add: load64_def)
qed

lemma load64_store8_other:
  assumes "8 \<le> unat (a - b)"
  shows "load64 (store8 m a v) b = load64 m b"
proof -
  have "a \<noteq> b + of_nat j" if "j < 8" for j
  proof
    assume "a = b + of_nat j"
    then have "a - b = of_nat j" by simp
    then have "unat (a - b) = j" using that by (simp add: unat_of_nat)
    then show False using assms that by simp
  qed
  from this [of 0] this [of 1] this [of 2] this [of 3] this [of 4] this [of 5] this [of 6] this [of 7]
  show ?thesis by (simp add: load64_def store8_def)
qed

lemma load8_store64_other: "8 \<le> unat (b - a) \<Longrightarrow> load8 (store64 m a v) b = load8 m b"
  by (simp add: load8_def store64_apart)

lemma load8_store8_same: "load8 (store8 m a v) a = v"
  by (simp add: load8_def store8_def)

lemma load8_store8_other: "a \<noteq> b \<Longrightarrow> load8 (store8 m a v) b = load8 m b"
  by (simp add: load8_def store8_def)

section \<open>Word arithmetic\<close>

lemma buf_plus_unat:
  fixes buf k n :: "64 word"
  assumes "buffer_ok buf n" "k \<le> n"
  shows "unat (buf + k) = unat buf + unat k"
proof -
  have "unat k \<le> unat n" using assms(2) by (simp add: word_le_nat_alt)
  then have "unat buf + unat k < 2 ^ 64" using assms(1) by (simp add: buffer_ok_def)
  then show ?thesis by (simp add: unat_add_lem [THEN iffD1])
qed

lemma buf_plus_neq_null:
  assumes "buffer_ok buf n" "k \<le> n"
  shows "buf + k \<noteq> nullptr"
proof -
  have "unat buf \<noteq> 0" using assms(1) by (simp add: buffer_ok_def nullptr_def unat_eq_zero)
  then have "unat (buf + k) \<noteq> 0" using buf_plus_unat [OF assms] by simp
  then show ?thesis by (auto simp: nullptr_def)
qed

lemma buf_plus_less:
  assumes "buffer_ok buf n" "j \<le> n" "k \<le> n"
  shows "buf + j < buf + k \<longleftrightarrow> j < k"
  using buf_plus_unat [OF assms(1,2)] buf_plus_unat [OF assms(1,3)]
  by (simp add: word_less_nat_alt)

lemma buf_less_plus:
  assumes "buffer_ok buf n" "k \<le> n"
  shows "buf < buf + k \<longleftrightarrow> 0 < k" "buf + k < buf \<longleftrightarrow> False"
  using buf_plus_unat [OF assms(1,2)]
  by (simp_all add: word_less_nat_alt unat_gt_0)

lemma buf_rules:
  assumes ok: "buffer_ok buf n"
  shows "buf \<noteq> 0"
    and "k \<le> n \<Longrightarrow> buf + k \<noteq> 0"
    and "k \<le> n \<Longrightarrow> k + buf \<noteq> 0"
    and "j \<le> n \<Longrightarrow> k \<le> n \<Longrightarrow> buf + j < buf + k \<longleftrightarrow> j < k"
    and "j \<le> n \<Longrightarrow> k \<le> n \<Longrightarrow> j + buf < k + buf \<longleftrightarrow> j < k"
    and "j \<le> n \<Longrightarrow> k \<le> n \<Longrightarrow> buf + j < k + buf \<longleftrightarrow> j < k"
    and "j \<le> n \<Longrightarrow> k \<le> n \<Longrightarrow> j + buf < buf + k \<longleftrightarrow> j < k"
    and "k \<le> n \<Longrightarrow> buf < buf + k \<longleftrightarrow> 0 < k"
    and "k \<le> n \<Longrightarrow> buf < k + buf \<longleftrightarrow> 0 < k"
    and "k \<le> n \<Longrightarrow> buf + k < buf \<longleftrightarrow> False"
    and "k \<le> n \<Longrightarrow> k + buf < buf \<longleftrightarrow> False"
  using buf_plus_neq_null [OF ok, of 0] buf_plus_neq_null [OF ok, of k]
    buf_plus_less [OF ok, of j k] buf_less_plus [OF ok, of k]
  by (simp_all add: nullptr_def add.commute)

lemma word_take_bit_add:
  fixes a b :: "'a::len word"
  shows "take_bit n (take_bit n a + take_bit n b) = take_bit n (a + b)"
  by transfer (simp add: take_bit_add min_def)

lemma and_not_mask_eq:
  fixes w :: "'a::len word"
  shows "w AND NOT (mask n) = w - take_bit n w"
proof -
  have "NOT w AND (w AND mask n) = 0"
    by (rule bit_eqI) (auto simp: bit_simps)
  then have "w - (w AND mask n) = w AND NOT (w AND mask n)"
    by (rule disjunctive_diff_eq_and_not)
  also have "\<dots> = w AND NOT (mask n)"
    by (rule bit_word_eqI) (auto simp: bit_simps)
  finally show ?thesis by (simp add: take_bit_eq_mask)
qed

lemma align_down_shift:
  fixes buf :: "'a::len word"
  assumes "take_bit n buf = 0"
  shows "(buf + x) AND NOT (mask n) = buf + (x AND NOT (mask n))"
proof -
  have "take_bit n (buf + x) = take_bit n (take_bit n buf + take_bit n x)"
    by (rule word_take_bit_add [symmetric])
  also have "\<dots> = take_bit n x" using assms by simp
  finally show ?thesis by (simp add: and_not_mask_eq)
qed

section \<open>The stack allocator's markers\<close>

lemma StackAllocator_newOffset_unat:
  assumes "StackAllocator_no_wrap s sz alignment"
  shows "unat (StackAllocator_newOffset s sz alignment) =
         unat (stk_m_offset s) + (unat sz + unat StackAllocator_headerSize)
           + unat (StackAllocator_padding s alignment)"
proof -
  let ?o = "stk_m_offset s" and ?h = StackAllocator_headerSize
    and ?p = "StackAllocator_padding s alignment"
  from assms have a: "unat sz + unat ?h < 2 ^ 64"
    and b: "unat ?o + (unat sz + unat ?h) < 2 ^ 64"
    and c: "unat ?o + (unat sz + unat ?h) + unat ?p < 2 ^ 64"
    by (simp_all add: StackAllocator_no_wrap_def)
  have 1: "unat (sz + ?h) = unat sz + unat ?h"
    using a by (simp add: unat_add_lem [THEN iffD1])
  have 2: "unat (?o + (sz + ?h)) = unat ?o + (unat sz + unat ?h)"
    using b 1 by (simp add: unat_add_lem [THEN iffD1])
  have "unat (?o + (sz + ?h) + ?p) = unat ?o + (unat sz + unat ?h) + unat ?p"
    using c 2 by (simp add: unat_add_lem [THEN iffD1])
  then show ?thesis by (simp add: StackAllocator_newOffset_def)
qed

lemma StackAllocator_Allocate_frame:
  assumes "StackAllocator_Allocate s sz alignment = Inr (p, s')"
  shows "stk_m_buffer s' = stk_m_buffer s" "stk_m_bufferSize s' = stk_m_bufferSize s"
    "stk_m_markers s' = stk_m_markers s"
  using assms by (auto simp: StackAllocator_Allocate_def Let_def split: if_splits)

lemma StackAllocator_Allocate_offset_mono:
  assumes "StackAllocator_Allocate s sz alignment = Inr (p, s')"
    and "StackAllocator_no_wrap s sz alignment"
  shows "stk_m_offset s \<le> stk_m_offset s'"
proof -
  have "unat (stk_m_offset s) \<le> unat (StackAllocator_newOffset s sz alignment)"
    using StackAllocator_newOffset_unat [OF assms(2)] by simp
  then have "stk_m_offset s \<le> StackAllocator_newOffset s sz alignment"
    by (simp add: word_le_nat_alt)
  then show ?thesis
    using assms(1) by (auto simp: StackAllocator_Allocate_def Let_def split: if_splits)
qed

lemma StackAllocator_Allocate_all_frame:
  assumes "StackAllocator_Allocate_all s rs = Inr (ps, s')"
    and "StackAllocator_no_wrap_all s rs"
  shows "stk_m_buffer s' = stk_m_buffer s \<and> stk_m_bufferSize s' = stk_m_bufferSize s \<and>
         stk_m_markers s' = stk_m_markers s \<and> stk_m_offset s \<le> stk_m_offset s'"
  using assms
proof (induction rs arbitrary: s ps)
  case Nil
  then show ?case by simp
next
  case (Cons r rs)
  obtain sz alignment where r: "r = (sz, alignment)" by (cases r)
  from Cons.prems(1) r obtain p s1 ps1 where
    a: "StackAllocator_Allocate s sz alignment = Inr (p, s1)"
    and b: "StackAllocator_Allocate_all s1 rs = Inr (ps1, s')"
    by (auto split: sum.splits)
  from Cons.prems(2) r a have nw: "StackAllocator_no_wrap s sz alignment"
    and nws: "StackAllocator_no_wrap_all s1 rs" by simp_all
  from Cons.IH [OF b nws] StackAllocator_Allocate_frame [OF a]
    StackAllocator_Allocate_offset_mono [OF a nw]
  show ?case by auto
qed

text \<open>The pointer and the new offset depend on the buffer, its size and the offset only.\<close>

lemma StackAllocator_Allocate_same_pointer:
  assumes "stk_m_buffer t = stk_m_buffer s" "stk_m_bufferSize t = stk_m_bufferSize s"
    "stk_m_offset t = stk_m_offset s"
    and "StackAllocator_Allocate s sz alignment = Inr (p, s')"
  shows "\<exists>t'. StackAllocator_Allocate t sz alignment = Inr (p, t')"
  using assms
  by (auto simp: StackAllocator_Allocate_def Let_def StackAllocator_newOffset_def
      StackAllocator_padding_def split: if_splits)

lemma StackAllocator_PopMarker_rewinds_without_wrap:
  assumes run: "StackAllocator_Allocate_all (StackAllocator_PushMarker s) rs = Inr (ps, s')"
    and nw: "StackAllocator_no_wrap_all (StackAllocator_PushMarker s) rs"
  shows "stk_m_offset (StackAllocator_PopMarker s') = stk_m_offset s"
    and "stk_m_markers (StackAllocator_PopMarker s') = stk_m_markers s"
    and "rs = (sz, alignment) # rs' \<Longrightarrow>
         \<exists>t. StackAllocator_Allocate (StackAllocator_PopMarker s') sz alignment = Inr (hd ps, t)"
proof -
  let ?s = "StackAllocator_PushMarker s"
  from StackAllocator_Allocate_all_frame [OF run nw]
  have f: "stk_m_buffer s' = stk_m_buffer s" "stk_m_bufferSize s' = stk_m_bufferSize s"
    "stk_m_markers s' = stk_m_markers s @ [stk_m_offset s]" "stk_m_offset s \<le> stk_m_offset s'"
    by (simp_all add: StackAllocator_PushMarker_def)
  then show o: "stk_m_offset (StackAllocator_PopMarker s') = stk_m_offset s"
    and "stk_m_markers (StackAllocator_PopMarker s') = stk_m_markers s"
    by (simp_all add: StackAllocator_PopMarker_def StackAllocator_FreeToMarker_def)
  have b: "stk_m_buffer (StackAllocator_PopMarker s') = stk_m_buffer ?s"
    "stk_m_bufferSize (StackAllocator_PopMarker s') = stk_m_bufferSize ?s"
    "stk_m_offset (StackAllocator_PopMarker s') = stk_m_offset ?s"
    using f o by (simp_all add: StackAllocator_PopMarker_def StackAllocator_FreeToMarker_def
        StackAllocator_PushMarker_def)
  show "\<exists>t. StackAllocator_Allocate (StackAllocator_PopMarker s') sz alignment = Inr (hd ps, t)"
    if "rs = (sz, alignment) # rs'"
  proof -
    from run that obtain p s1 ps1 where
      a: "StackAllocator_Allocate ?s sz alignment = Inr (p, s1)" and "ps = p # ps1"
      by (auto split: sum.splits)
    with StackAllocator_Allocate_same_pointer [OF b a] show ?thesis by simp
  qed
qed

section \<open>The pool allocator's class lookup\<close>

lemma upt4: "[0..<4] = [0, 1, 2, 3]" "[0..<2] = [0, 1]"
  by (simp_all add: upt_rec)

lemma S5_pool_constructed:
  "PoolAllocator_new mem0 [((32, 4), 4096), ((128, 2), 8192)] = Inr S5_pool"
  by (simp add: PoolAllocator_new_def Pool_linkBlocks_def upt4 nullptr_def S5_pool_def
      S5_pools_def S5_mem_def)

lemma findPool_from_Inr:
  "findPool_from k ps sz = Inr i \<Longrightarrow>
     k \<le> i \<and> i - k < length ps \<and> sz \<le> blockSize (ps ! (i - k)) \<and>
     (\<forall>j < i - k. \<not> sz \<le> blockSize (ps ! j))"
proof (induction ps arbitrary: k)
  case Nil
  then show ?case by simp
next
  case (Cons pool rest)
  show ?case
  proof (cases "sz \<le> blockSize pool")
    case True
    with Cons.prems show ?thesis by simp
  next
    case False
    with Cons.prems have r: "findPool_from (Suc k) rest sz = Inr i" by simp
    from Cons.IH [OF r] have ih: "Suc k \<le> i" "i - Suc k < length rest"
      "sz \<le> blockSize (rest ! (i - Suc k))" "\<forall>j < i - Suc k. \<not> sz \<le> blockSize (rest ! j)"
      by simp_all
    from ih(1) have e: "i - k = Suc (i - Suc k)" by simp
    have "\<not> sz \<le> blockSize ((pool # rest) ! j)" if "j < i - k" for j
      using that False ih(4) e by (cases j) simp_all
    then show ?thesis using ih e by simp
  qed
qed

lemma findPool_from_Inl:
  "findPool_from k ps sz = Inl e \<longleftrightarrow>
     e = RuntimeError ''No suitable pool found'' \<and> (\<forall>pool \<in> set ps. \<not> sz \<le> blockSize pool)"
  by (induction ps arbitrary: k) auto

lemma findPool_first_fit:
  assumes "\<exists>pool \<in> set (pools s). sz \<le> blockSize pool"
  shows "\<exists>i. findPool s sz = Inr i \<and> i < length (pools s) \<and> sz \<le> blockSize (pools s ! i) \<and>
          (\<forall>j < i. \<not> sz \<le> blockSize (pools s ! j))"
proof (cases "findPool s sz")
  case (Inl e)
  then show ?thesis using assms by (simp add: findPool_def findPool_from_Inl)
next
  case (Inr i)
  from findPool_from_Inr [of 0 "pools s" sz i] Inr show ?thesis by (simp add: findPool_def)
qed

section \<open>The free-list allocator's loops\<close>

lemma FreeListAllocator_Allocate_loop_null:
  "FreeListAllocator_Allocate_loop s sz alignment prev 0 = Some (0, s)"
  by (subst FreeListAllocator_Allocate_loop.simps) (simp add: nullptr_def)

lemma FreeListAllocator_Allocate_loop_step:
  assumes "current \<noteq> 0"
  shows "FreeListAllocator_Allocate_loop s sz alignment prev current =
    (if load64 (fl_mem s) current \<ge> FreeListAllocator_requiredSize current sz alignment
     then Some (FreeListAllocator_Allocate_take s prev current
                  (FreeListAllocator_alignedAddress current alignment)
                  (FreeListAllocator_alignedAddress current alignment - (current + sizeof_FreeBlock))
                  (FreeListAllocator_requiredSize current sz alignment))
     else FreeListAllocator_Allocate_loop s sz alignment current
            (load64 (fl_mem s) (current + 8)))"
  using assms
  by (subst FreeListAllocator_Allocate_loop.simps)
    (simp add: nullptr_def Let_def FreeListAllocator_requiredSize_def
      FreeListAllocator_alignedAddress_def)

lemma alignedAddress_8:
  fixes buf :: "64 word"
  assumes "buf mod 8 = 0" "k mod 8 = 0"
  shows "FreeListAllocator_alignedAddress (buf + k) 8 = buf + (k + 32)"
proof -
  have m: "x mod 2 ^ 3 = x AND mask 3" for x :: "64 word"
    by (rule word_mod_2p_is_mask) simp
  have "take_bit 3 (buf + k) = take_bit 3 (take_bit 3 buf + take_bit 3 k)"
    by (rule word_take_bit_add [symmetric])
  also have "\<dots> = 0" using assms m [of buf] m [of k] by (simp add: take_bit_eq_mask)
  finally have tb: "take_bit 3 (buf + k) = 0" .
  have "FreeListAllocator_alignedAddress (buf + k) 8 = ((buf + k) + 39) AND NOT (mask 3)"
    by (simp add: FreeListAllocator_alignedAddress_def sizeof_FreeBlock_def
        sizeof_AllocationHeader_def mask_numeral ac_simps)
  also have "\<dots> = (buf + k) + (39 AND NOT (mask 3))"
    by (rule align_down_shift [OF tb])
  also have "(39 :: 64 word) AND NOT (mask 3) = 32"
    by (simp add: mask_numeral)
  finally show ?thesis by (simp add: add.assoc)
qed

lemma alignedAddress_8':
  fixes buf :: "64 word"
  assumes "buf mod 8 = 0"
  shows "k mod 8 = 0 \<Longrightarrow> FreeListAllocator_alignedAddress (buf + k) 8 = buf + (k + 32)"
    and "k mod 8 = 0 \<Longrightarrow> FreeListAllocator_alignedAddress (k + buf) 8 = buf + (k + 32)"
    and "FreeListAllocator_alignedAddress buf 8 = buf + 32"
  using alignedAddress_8 [OF assms, of k] alignedAddress_8 [OF assms, of 0]
  by (simp_all add: add.commute)

lemma FreeListAllocator_Free_walk_stop:
  "current = 0 \<or> \<not> current < b \<Longrightarrow>
   FreeListAllocator_Free_walk mem b prev current = Some (prev, current)"
  by (subst FreeListAllocator_Free_walk.simps) (auto simp: nullptr_def)

lemma FreeListAllocator_Free_walk_step:
  "current \<noteq> 0 \<Longrightarrow> current < b \<Longrightarrow>
   FreeListAllocator_Free_walk mem b prev current =
   FreeListAllocator_Free_walk mem b current (load64 mem (current + 8))"
  by (subst FreeListAllocator_Free_walk.simps) (simp add: nullptr_def)

lemmas fl_eval = FreeListAllocator_new_def FreeListAllocator_Allocate_def
      FreeListAllocator_Allocate_loop_step FreeListAllocator_Allocate_loop_null
      FreeListAllocator_requiredSize_def Let_def
      sizeof_AllocationHeader_def sizeof_FreeBlock_def MIN_BLOCK_SIZE_def
      load64_store64_same load64_store64_other load64_store8_other
      load8_store8_same load8_store8_other load8_store64_other
      FreeListAllocator_Allocate_take_def nullptr_def
      FreeListAllocator_Free_def FreeListAllocator_Free_walk_stop FreeListAllocator_Free_walk_step

lemma FreeListAllocator_Validate_loop_null:
  "FreeListAllocator_Validate_loop s 0 t = Some (t + fl_m_allocatedSize s = fl_m_bufferSize s)"
  by (subst FreeListAllocator_Validate_loop.simps) (simp add: nullptr_def)

lemma FreeListAllocator_Validate_loop_step:
  "block \<noteq> 0 \<Longrightarrow>
   FreeListAllocator_Validate_loop s block t =
     (if load64 (fl_mem s) (block + 8) \<noteq> 0 \<and>
         block + load64 (fl_mem s) block > load64 (fl_mem s) (block + 8)
      then Some False
      else FreeListAllocator_Validate_loop s (load64 (fl_mem s) (block + 8))
             (t + load64 (fl_mem s) block))"
  by (subst FreeListAllocator_Validate_loop.simps) (simp add: nullptr_def Let_def)

lemma FreeListAllocator_freeMemory_loop_null:
  "FreeListAllocator_freeMemory_loop mem 0 t = Some t"
  by (subst FreeListAllocator_freeMemory_loop.simps) (simp add: nullptr_def)

lemma FreeListAllocator_freeMemory_loop_step:
  "block \<noteq> 0 \<Longrightarrow>
   FreeListAllocator_freeMemory_loop mem block t =
   FreeListAllocator_freeMemory_loop mem (load64 mem (block + 8)) (t + load64 mem block)"
  by (subst FreeListAllocator_freeMemory_loop.simps) (simp add: nullptr_def)

section \<open>Reset\<close>

lemma PoolAllocator_Reset_peakUsage: "peakUsage (PoolAllocator_Reset s) = peakUsage s"
  by (simp add: PoolAllocator_Reset_def split: prod.splits)

section \<open>Alignment and ownership of returned pointers\<close>

lemma round_up_nat: 
  fixes x a :: nat
  assumes "0 < a"
  shows "(x + (a - x mod a) mod a) mod a = 0"
proof (cases "x mod a = 0")
  case True
  then show ?thesis by simp
next
  case False
  then have "x mod a < a" "0 < x mod a" using assms by simp_all
  then have "(a - x mod a) mod a = a - x mod a" by simp
  moreover have "(x + (a - x mod a)) mod a = (x mod a + (a - x mod a)) mod a"
    by (simp add: mod_add_left_eq)
  moreover have "x mod a + (a - x mod a) = a" using \<open>x mod a < a\<close> by simp
  ultimately show ?thesis by simp
qed

lemma unat_padding:
  fixes x a :: "64 word"
  assumes "a \<noteq> 0"
  shows "unat ((a - x mod a) mod a) = (unat a - unat x mod unat a) mod unat a"
proof -
  have a: "0 < unat a" using assms by (simp add: unat_gt_0)
  have "unat (x mod a) = unat x mod unat a" by (simp add: unat_mod)
  moreover have "unat x mod unat a < unat a" using a by simp
  ultimately have "x mod a \<le> a" by (simp add: word_le_nat_alt)
  then have "unat (a - x mod a) = unat a - unat (x mod a)" by (rule unat_sub)
  then show ?thesis by (simp add: unat_mod)
qed

lemma word_mod_zero_iff:
  fixes x a :: "64 word"
  shows "x mod a = 0 \<longleftrightarrow> unat x mod unat a = 0"
  by (metis unat_mod unat_eq_zero)

lemma LinearAllocator_aligned_offset:
  assumes al: "alignment \<noteq> 0" and nw: "LinearAllocator_no_wrap s sz alignment"
  shows "(lin_m_offset s + LinearAllocator_padding s alignment) mod alignment = 0"
    and "unat (lin_m_offset s + LinearAllocator_padding s alignment) =
           unat (lin_m_offset s) + unat (LinearAllocator_padding s alignment)"
    and "unat (LinearAllocator_newOffset s sz alignment) =
           unat (lin_m_offset s) + unat (LinearAllocator_padding s alignment) + unat sz"
proof -
  let ?o = "lin_m_offset s" and ?p = "LinearAllocator_padding s alignment"
  have a: "0 < unat alignment" using al by (simp add: unat_gt_0)
  from nw have 1: "unat ?o + unat ?p < 2 ^ 64" and 2: "unat ?o + unat ?p + unat sz < 2 ^ 64"
    by (simp_all add: LinearAllocator_no_wrap_def)
  show u: "unat (?o + ?p) = unat ?o + unat ?p"
    using 1 by (simp add: unat_add_lem [THEN iffD1])
  have "unat ?p = (unat alignment - unat ?o mod unat alignment) mod unat alignment"
    unfolding LinearAllocator_padding_def by (rule unat_padding [OF al])
  then have "unat (?o + ?p) mod unat alignment = 0"
    using u round_up_nat [OF a, of "unat ?o"] by simp
  then show "(?o + ?p) mod alignment = 0" by (simp add: word_mod_zero_iff)
  show "unat (LinearAllocator_newOffset s sz alignment) = unat ?o + unat ?p + unat sz"
    using 2 u by (simp add: LinearAllocator_newOffset_def unat_add_lem [THEN iffD1])
qed

lemma LinearAllocator_Allocate_success:
  assumes "LinearAllocator_Allocate s sz alignment = Inr (p, s')" "p \<noteq> nullptr"
  shows "alignment \<noteq> 0"
    and "LinearAllocator_newOffset s sz alignment \<le> lin_m_bufferSize s"
    and "p = lin_m_buffer s + (lin_m_offset s + LinearAllocator_padding s alignment)"
    and "lin_m_offset s' = LinearAllocator_newOffset s sz alignment"
    and "lin_m_buffer s' = lin_m_buffer s"
  using assms
  by (auto simp: LinearAllocator_Allocate_def Let_def add.assoc split: if_splits)

lemma LinearAllocator_Allocate_aligned_owned:
  assumes alloc: "LinearAllocator_Allocate s sz alignment = Inr (p, s')" and nn: "p \<noteq> nullptr"
    and nw: "LinearAllocator_no_wrap s sz alignment"
    and ok: "buffer_ok (lin_m_buffer s) (lin_m_bufferSize s)"
  shows "(p - lin_m_buffer s) mod alignment = 0"
    and "LinearAllocator_Owns s' p \<longleftrightarrow> sz \<noteq> 0"
    and "lin_m_buffer s mod alignment = 0 \<Longrightarrow> p mod alignment = 0"
proof -
  let ?b = "lin_m_buffer s" and ?o = "lin_m_offset s" and ?p = "LinearAllocator_padding s alignment"
  let ?n = "LinearAllocator_newOffset s sz alignment"
  note S = LinearAllocator_Allocate_success [OF alloc nn]
  note A = LinearAllocator_aligned_offset [OF S(1) nw]
  have le: "?o + ?p \<le> ?n" using A(2,3) by (simp add: word_le_nat_alt)
  then have le2: "?o + ?p \<le> lin_m_bufferSize s" using S(2) by simp
  have up: "unat p = unat ?b + unat (?o + ?p)"
    using buf_plus_unat [OF ok le2] S(3) by simp
  have un: "unat (?b + ?n) = unat ?b + unat ?n"
    using buf_plus_unat [OF ok S(2)] .
  show "(p - ?b) mod alignment = 0" using A(1) S(3) by simp
  have "p < ?b + ?n \<longleftrightarrow> sz \<noteq> 0"
    using up un A(2,3) by (simp add: word_less_nat_alt unat_gt_0)
  moreover have "?b \<le> p" using up by (simp add: word_le_nat_alt)
  ultimately show "LinearAllocator_Owns s' p \<longleftrightarrow> sz \<noteq> 0"
    using S(4,5) by (simp add: LinearAllocator_Owns_def)
  show "p mod alignment = 0" if "?b mod alignment = 0"
  proof -
    have "unat ?b mod unat alignment = 0" using that by (simp add: word_mod_zero_iff)
    moreover have "unat (?o + ?p) mod unat alignment = 0" using A(1) by (simp add: word_mod_zero_iff)
    ultimately have "unat p mod unat alignment = 0" using up by (simp add: mod_add_eq [symmetric])
    then show ?thesis by (simp add: word_mod_zero_iff)
  qed
qed


lemma StackAllocator_aligned_offset:
  assumes al: "alignment \<noteq> 0" and nw: "StackAllocator_no_wrap s sz alignment"
  shows "(stk_m_offset s + StackAllocator_headerSize + StackAllocator_padding s alignment)
           mod alignment = 0"
    and "unat (stk_m_offset s + StackAllocator_headerSize + StackAllocator_padding s alignment) =
           unat (stk_m_offset s) + 16 + unat (StackAllocator_padding s alignment)"
    and "unat (StackAllocator_newOffset s sz alignment) =
           unat (stk_m_offset s) + 16 + unat (StackAllocator_padding s alignment) + unat sz"
proof -
  let ?o = "stk_m_offset s" and ?h = StackAllocator_headerSize
    and ?p = "StackAllocator_padding s alignment"
  have h: "unat ?h = 16" by (simp add: StackAllocator_headerSize_def)
  have a: "0 < unat alignment" using al by (simp add: unat_gt_0)
  from nw h have 1: "unat ?o + unat ?h < 2 ^ 64" and 2: "unat ?o + unat ?h + unat ?p < 2 ^ 64"
    by (simp_all add: StackAllocator_no_wrap_def)
  have oh: "unat (?o + ?h) = unat ?o + unat ?h"
    using 1 by (simp add: unat_add_lem [THEN iffD1])
  then have u: "unat (?o + ?h + ?p) = unat ?o + unat ?h + unat ?p"
    using 2 by (simp add: unat_add_lem [THEN iffD1])
  then show "unat (?o + ?h + ?p) = unat ?o + 16 + unat ?p" using h by simp
  have "unat ?p = (unat alignment - unat (?o + ?h) mod unat alignment) mod unat alignment"
    unfolding StackAllocator_padding_def by (rule unat_padding [OF al])
  then have "unat (?o + ?h + ?p) mod unat alignment = 0"
    using u oh round_up_nat [OF a, of "unat (?o + ?h)"] by simp
  then show "(?o + ?h + ?p) mod alignment = 0" by (simp add: word_mod_zero_iff)
  show "unat (StackAllocator_newOffset s sz alignment) = unat ?o + 16 + unat ?p + unat sz"
    using StackAllocator_newOffset_unat [OF nw] h by simp
qed

lemma StackAllocator_Allocate_success:
  assumes "StackAllocator_Allocate s sz alignment = Inr (p, s')" "p \<noteq> nullptr"
  shows "alignment \<noteq> 0"
    and "StackAllocator_newOffset s sz alignment \<le> stk_m_bufferSize s"
    and "p = stk_m_buffer s
           + (stk_m_offset s + StackAllocator_headerSize + StackAllocator_padding s alignment)"
    and "stk_m_offset s' = StackAllocator_newOffset s sz alignment"
    and "stk_m_buffer s' = stk_m_buffer s"
    and "stk_mem s' = store64 (store64 (stk_mem s) (p - StackAllocator_headerSize) sz)
           (p - StackAllocator_headerSize + 8)
           (StackAllocator_headerSize + StackAllocator_padding s alignment)"
  using assms
  by (auto simp: StackAllocator_Allocate_def Let_def add.assoc split: if_splits)

lemma StackAllocator_Allocate_aligned_owned:
  assumes alloc: "StackAllocator_Allocate s sz alignment = Inr (p, s')" and nn: "p \<noteq> nullptr"
    and nw: "StackAllocator_no_wrap s sz alignment"
    and ok: "buffer_ok (stk_m_buffer s) (stk_m_bufferSize s)"
  shows "(p - stk_m_buffer s) mod alignment = 0"
    and "StackAllocator_Owns s' p \<longleftrightarrow> sz \<noteq> 0"
    and "stk_m_buffer s mod alignment = 0 \<Longrightarrow> p mod alignment = 0"
proof -
  let ?b = "stk_m_buffer s"
  let ?q = "stk_m_offset s + StackAllocator_headerSize + StackAllocator_padding s alignment"
  let ?n = "StackAllocator_newOffset s sz alignment"
  note S = StackAllocator_Allocate_success [OF alloc nn]
  note A = StackAllocator_aligned_offset [OF S(1) nw]
  have le: "?q \<le> ?n" using A(2,3) by (simp add: word_le_nat_alt)
  then have le2: "?q \<le> stk_m_bufferSize s" using S(2) by simp
  have up: "unat p = unat ?b + unat ?q"
    using buf_plus_unat [OF ok le2] S(3) by simp
  have un: "unat (?b + ?n) = unat ?b + unat ?n"
    using buf_plus_unat [OF ok S(2)] .
  show "(p - ?b) mod alignment = 0" using A(1) S(3) by simp
  have "p < ?b + ?n \<longleftrightarrow> sz \<noteq> 0"
    using up un A(2,3) by (simp add: word_less_nat_alt unat_gt_0)
  moreover have "?b \<le> p" using up by (simp add: word_le_nat_alt)
  ultimately show "StackAllocator_Owns s' p \<longleftrightarrow> sz \<noteq> 0"
    using S(4,5) by (simp add: StackAllocator_Owns_def)
  show "p mod alignment = 0" if "?b mod alignment = 0"
  proof -
    have "unat ?b mod unat alignment = 0" using that by (simp add: word_mod_zero_iff)
    moreover have "unat ?q mod unat alignment = 0" using A(1) by (simp add: word_mod_zero_iff)
    ultimately have "unat p mod unat alignment = 0"
      using up by (simp add: mod_add_eq [symmetric])
    then show ?thesis by (simp add: word_mod_zero_iff)
  qed
qed

text \<open>The header written by \<open>Allocate\<close> reads back the requested size.\<close>

lemma StackAllocator_Allocate_header:
  assumes alloc: "StackAllocator_Allocate s sz alignment = Inr (p, s')" and nn: "p \<noteq> nullptr"
  shows "load64 (stk_mem s') (p - StackAllocator_headerSize) = sz"
  using StackAllocator_Allocate_success(6) [OF alloc nn]
  by (simp add: load64_store64_other load64_store64_same)

lemma exp_64_pos: "k < 64 \<Longrightarrow> (0 :: 64 word) < 2 ^ k"
  by (simp add: word_neq_0_conv [symmetric])

lemma unat_exp_64: "k < 64 \<Longrightarrow> unat (2 ^ k :: 64 word) = 2 ^ k"
  using uint_2p [of k, where 'a=64] exp_64_pos [of k]
  by (simp add: unat_eq_nat_uint nat_power_eq)

lemma power_of_two_mask:
  assumes "power_of_two a"
  obtains k where "k < 64" "a = 2 ^ k" "a - 1 = mask k" "unat a = 2 ^ k"
proof -
  from assms obtain k where k: "k < 64" "a = 2 ^ k" by (auto simp: power_of_two_def)
  have "a - 1 = mask k" using k by (simp add: mask_eq_exp_minus_1)
  moreover have "unat a = 2 ^ k" using k by (simp add: unat_exp_64)
  ultimately show ?thesis using k that by blast
qed

lemma alignedAddress_mod:
  assumes "power_of_two alignment"
  shows "FreeListAllocator_alignedAddress current alignment mod alignment = 0"
proof -
  from assms obtain k where k: "k < 64" "alignment = 2 ^ k" "alignment - 1 = mask k"
    by (rule power_of_two_mask)
  let ?x = "current + sizeof_FreeBlock + sizeof_AllocationHeader + alignment - 1"
  have a: "FreeListAllocator_alignedAddress current alignment = ?x AND NOT (mask k)"
    by (simp add: FreeListAllocator_alignedAddress_def k(3))
  have pos: "(0 :: 64 word) < 2 ^ k" using k(1) by (rule exp_64_pos)
  have "(?x AND NOT (mask k)) mod 2 ^ k = (?x AND NOT (mask k)) AND mask k"
    by (rule word_mod_2p_is_mask [OF pos])
  also have "\<dots> = 0" by (rule bit_word_eqI) (auto simp: bit_simps)
  finally show ?thesis using a k(2) by simp
qed

lemma FreeListAllocator_Allocate_take_result:
  assumes "FreeListAllocator_Allocate_take s prev c aligned padding req0 = (p, s')"
  shows "p = aligned"
    and "fl_m_buffer s' = fl_m_buffer s"
    and "fl_m_bufferSize s' = fl_m_bufferSize s"
    and "load64 (fl_mem s') (aligned - sizeof_AllocationHeader) =
           (if load64 (fl_mem s) c - req0 \<le> MIN_BLOCK_SIZE then load64 (fl_mem s) c else req0)"
    and "load8 (fl_mem s') (aligned - sizeof_AllocationHeader + 8) = ucast padding"
  using assms
  by (auto simp: FreeListAllocator_Allocate_take_def Let_def load64_store64_same
      load64_store8_other load8_store8_same split: prod.splits if_splits)

lemma FreeListAllocator_tookI:
  assumes "c \<noteq> nullptr"
    and "FreeListAllocator_requiredSize c sz alignment \<le> load64 (fl_mem s) c"
    and "r = FreeListAllocator_Allocate_take s pv c
              (FreeListAllocator_alignedAddress c alignment)
              (FreeListAllocator_alignedAddress c alignment - (c + sizeof_FreeBlock))
              (FreeListAllocator_requiredSize c sz alignment)"
  shows "FreeListAllocator_took s sz alignment r"
  unfolding FreeListAllocator_took_def using assms by blast

lemma FreeListAllocator_Allocate_loop_result:
  assumes "FreeListAllocator_Allocate_loop s sz alignment prev current = Some r"
  shows "FreeListAllocator_took s sz alignment r"
proof (rule FreeListAllocator_Allocate_loop.raw_induct
    [where P = "\<lambda>s sz alignment prev current r. FreeListAllocator_took s sz alignment r",
      OF _ assms], goal_cases)
  case (1 loop s sz alignment prev current r)
  show ?case
  proof (cases "current = nullptr")
    case True
    with 1(2) have "r = (nullptr, s)" by simp
    then show ?thesis by (simp add: FreeListAllocator_took_def)
  next
    case False
    show ?thesis
    proof (cases "FreeListAllocator_requiredSize current sz alignment \<le> load64 (fl_mem s) current")
      case True
      with False 1(2) have "r = FreeListAllocator_Allocate_take s prev current
                  (FreeListAllocator_alignedAddress current alignment)
                  (FreeListAllocator_alignedAddress current alignment - (current + sizeof_FreeBlock))
                  (FreeListAllocator_requiredSize current sz alignment)"
        by (simp add: Let_def FreeListAllocator_requiredSize_def
            FreeListAllocator_alignedAddress_def)
      with False True show ?thesis by (rule FreeListAllocator_tookI)
    next
      case nofit: False
      with False 1(2) have "loop s sz alignment current (load64 (fl_mem s) (current + 8)) = Some r"
        by (simp add: Let_def FreeListAllocator_requiredSize_def
            FreeListAllocator_alignedAddress_def)
      from 1(1) [OF this] show ?thesis .
    qed
  qed
qed

text \<open>On a list that ends, the loop ends: with null when no block fits, else with a block of the list.\<close>

lemma FreeListAllocator_Allocate_loop_linked:
  assumes "linked (fl_mem s) 8 current bs"
  shows "((\<forall>b \<in> set bs. \<not> FreeListAllocator_requiredSize b sz alignment \<le> load64 (fl_mem s) b) \<and>
          FreeListAllocator_Allocate_loop s sz alignment prev current = Some (nullptr, s)) \<or>
         (\<exists>pv c. c \<in> set bs \<and>
            FreeListAllocator_requiredSize c sz alignment \<le> load64 (fl_mem s) c \<and>
            FreeListAllocator_Allocate_loop s sz alignment prev current =
              Some (FreeListAllocator_Allocate_take s pv c
                  (FreeListAllocator_alignedAddress c alignment)
                  (FreeListAllocator_alignedAddress c alignment - (c + sizeof_FreeBlock))
                  (FreeListAllocator_requiredSize c sz alignment)))"
  using assms
proof (induction bs arbitrary: prev current)
  case Nil
  then show ?case by (simp add: FreeListAllocator_Allocate_loop_null nullptr_def)
next
  case (Cons b bs)
  then have cur: "current = b" "b \<noteq> 0"
    and rest: "linked (fl_mem s) 8 (load64 (fl_mem s) (b + 8)) bs"
    by (simp_all add: nullptr_def)
  show ?case
  proof (cases "FreeListAllocator_requiredSize b sz alignment \<le> load64 (fl_mem s) b")
    case True
    then show ?thesis
      using cur by (auto simp: FreeListAllocator_Allocate_loop_step)
  next
    case False
    with Cons.IH [OF rest, of b] cur show ?thesis
      by (auto simp: FreeListAllocator_Allocate_loop_step)
  qed
qed

lemma PoolAllocator_Owns_loop_iff:
  "PoolAllocator_Owns_loop ps p \<longleftrightarrow> (\<exists>pool \<in> set ps. Pool_contains pool p)"
  by (induction ps) auto

lemma PoolAllocator_GetAllocationSize_loop_not_owned:
  "\<not> PoolAllocator_Owns_loop ps p \<Longrightarrow> PoolAllocator_GetAllocationSize_loop ps p = 0"
  by (induction ps) (auto split: if_splits)

lemma PoolAllocator_GetAllocationSize_loop_owned:
  "PoolAllocator_Owns_loop ps p \<Longrightarrow>
   \<exists>pool \<in> set ps. Pool_contains pool p \<and>
      PoolAllocator_GetAllocationSize_loop ps p = blockSize pool"
  by (induction ps) (auto split: if_splits)

lemma Pool_contains_null: "memory pool \<noteq> nullptr \<Longrightarrow> \<not> Pool_contains pool nullptr"
  by (simp add: Pool_contains_def nullptr_def word_le_nat_alt unat_eq_zero)

lemma PoolAllocator_Allocate_ignores_alignment:
  "PoolAllocator_Allocate s sz a1 = PoolAllocator_Allocate s sz a2"
  by (simp add: PoolAllocator_Allocate_def)

lemma Pool_contains_freeList_update [simp]:
  "Pool_contains (pool\<lparr>freeList := x\<rparr>) p = Pool_contains pool p"
  by (simp add: Pool_contains_def)

lemma PoolAllocator_Allocate_owned:
  assumes alloc: "PoolAllocator_Allocate s sz alignment = Inr (p, s')" and nn: "p \<noteq> nullptr"
    and wf: "PoolAllocator_freeLists_are s bss"
  shows "\<exists>i. findPool s sz = Inr i \<and> i < length (pools s) \<and> bss ! i \<noteq> [] \<and>
           p = hd (bss ! i) \<and> Pool_contains (pools s ! i) p \<and>
           PoolAllocator_Owns s' p \<and>
           PoolAllocator_freeLists_are s' (bss[i := tl (bss ! i)])"
proof -
  from alloc obtain i where i: "findPool s sz = Inr i"
    by (auto simp: PoolAllocator_Allocate_def split: sum.splits)
  from findPool_from_Inr [of 0 "pools s" sz i] i have len: "i < length (pools s)"
    by (simp add: findPool_def)
  let ?pool = "pools s ! i"
  from alloc i nn have head: "freeList ?pool = p"
    and s': "s' = s\<lparr>pools := (pools s)[i := ?pool\<lparr>freeList := load64 (pool_mem s) p\<rparr>],
                   totalAllocated := totalAllocated s + blockSize ?pool,
                   allocationCount := allocationCount s + 1,
                   peakUsage := max (peakUsage s) (totalAllocated s + blockSize ?pool)\<rparr>"
    by (auto simp: PoolAllocator_Allocate_def Let_def split: if_splits)
  from wf len have fl: "Pool_freeList_is (pool_mem s) ?pool (bss ! i)"
    and lb: "length bss = length (pools s)"
    by (simp_all add: PoolAllocator_freeLists_are_def)
  from fl head nn obtain bs where bs: "bss ! i = p # bs"
    and rest: "linked (pool_mem s) 0 (load64 (pool_mem s) p) bs"
    and inp: "Pool_contains ?pool p" and inbs: "\<forall>b \<in> set bs. Pool_contains ?pool b"
    by (cases "bss ! i") (auto simp: Pool_freeList_is_def)
  have own: "PoolAllocator_Owns s' p"
    unfolding PoolAllocator_Owns_def PoolAllocator_Owns_loop_iff
  proof
    show "?pool\<lparr>freeList := load64 (pool_mem s) p\<rparr> \<in> set (pools s')"
      using len s' by (simp add: set_update_memI)
    show "Pool_contains (?pool\<lparr>freeList := load64 (pool_mem s) p\<rparr>) p"
      using inp by simp
  qed
  have "Pool_freeList_is (pool_mem s') (pools s' ! j) (bss[i := tl (bss ! i)] ! j)"
    if "j < length (pools s')" for j
  proof (cases "j = i")
    case True
    then show ?thesis
      using len lb s' bs rest inbs by (simp add: Pool_freeList_is_def)
  next
    case False
    then show ?thesis
      using that wf s' by (simp add: PoolAllocator_freeLists_are_def)
  qed
  then have "PoolAllocator_freeLists_are s' (bss[i := tl (bss ! i)])"
    using lb s' by (simp add: PoolAllocator_freeLists_are_def)
  with i len bs inp own show ?thesis by auto
qed

lemma alignedAddress_eq:
  assumes "power_of_two alignment"
  obtains k where "k < 64" "unat alignment = 2 ^ k"
    "FreeListAllocator_alignedAddress current alignment =
       (current + 32 + mask k) - take_bit k (current + 32 + mask k)"
proof -
  from assms obtain k where k: "k < 64" "alignment = 2 ^ k" "alignment - 1 = mask k"
    "unat alignment = 2 ^ k"
    by (rule power_of_two_mask)
  have "current + sizeof_FreeBlock + sizeof_AllocationHeader + alignment - 1
        = current + 32 + (alignment - 1)"
    by (simp add: sizeof_FreeBlock_def sizeof_AllocationHeader_def)
  then have "FreeListAllocator_alignedAddress current alignment =
       (current + 32 + mask k) AND NOT (mask k)"
    unfolding FreeListAllocator_alignedAddress_def k(3) by (simp only:)
  then have "FreeListAllocator_alignedAddress current alignment =
       (current + 32 + mask k) - take_bit k (current + 32 + mask k)"
    by (simp only: and_not_mask_eq)
  with k(1,4) that show ?thesis by blast
qed

text \<open>The padding is 16 plus less than the alignment.\<close>

lemma alignmentPadding_bound:
  assumes "power_of_two alignment"
  shows "16 \<le> unat (FreeListAllocator_alignedAddress current alignment - (current + sizeof_FreeBlock))"
    and "unat (FreeListAllocator_alignedAddress current alignment - (current + sizeof_FreeBlock))
           < 16 + unat alignment"
proof -
  from assms obtain k where k: "k < 64" "unat alignment = 2 ^ k"
    and a: "FreeListAllocator_alignedAddress current alignment =
       (current + 32 + mask k) - take_bit k (current + 32 + mask k)"
    by (rule alignedAddress_eq)
  let ?t = "take_bit k (current + 32 + mask k) :: 64 word"
  have t: "?t \<le> mask k" by (simp add: take_bit_eq_mask word_and_le1)
  have um: "unat (mask k :: 64 word) = 2 ^ k - 1"
    using k(1) unat_exp_64 [of k] by (simp add: mask_eq_exp_minus_1 unat_minus_one)
  have d: "unat (mask k - ?t) = unat (mask k :: 64 word) - unat ?t"
    using t by (rule unat_sub)
  have "(0::nat) < 2 ^ k" by simp
  then have dle: "unat (mask k - ?t) < 2 ^ k" using um d by linarith
  have "(2::nat) ^ k \<le> 2 ^ 63" using k(1) by (intro power_increasing) simp_all
  then have "16 + unat (mask k - ?t) < 2 ^ 64" using dle by simp
  then have "unat (16 + (mask k - ?t)) = 16 + unat (mask k - ?t)"
    using unat_add_lem [of 16 "mask k - ?t"] by simp
  moreover have "FreeListAllocator_alignedAddress current alignment - (current + sizeof_FreeBlock)
        = 16 + (mask k - ?t)"
    by (simp add: a sizeof_FreeBlock_def algebra_simps)
  ultimately have "unat (FreeListAllocator_alignedAddress current alignment
      - (current + sizeof_FreeBlock)) = 16 + unat (mask k - ?t)" by simp
  then show "16 \<le> unat (FreeListAllocator_alignedAddress current alignment - (current + sizeof_FreeBlock))"
    and "unat (FreeListAllocator_alignedAddress current alignment - (current + sizeof_FreeBlock))
           < 16 + unat alignment"
    using dle k(2) by simp_all
qed

lemma ucast_byte_roundtrip:
  fixes x :: "64 word"
  assumes "unat x < 256"
  shows "(ucast (ucast x :: 8 word) :: 64 word) = x"
proof -
  have "x < 2 ^ 8" using assms by (simp add: word_less_nat_alt)
  then have "take_bit 8 x = x" by (simp add: take_bit_eq_mask less_mask_eq)
  moreover have "(ucast (ucast x :: 8 word) :: 64 word) = take_bit 8 x"
    by (rule bit_word_eqI) (auto simp: bit_simps)
  ultimately show ?thesis by simp
qed


lemma FreeListAllocator_Allocate_cases:
  assumes "FreeListAllocator_Allocate s sz alignment = Some (p, s')" "p \<noteq> nullptr"
  obtains pv c where "c \<noteq> nullptr"
    and "FreeListAllocator_requiredSize c sz alignment \<le> load64 (fl_mem s) c"
    and "FreeListAllocator_Allocate_take s pv c
              (FreeListAllocator_alignedAddress c alignment)
              (FreeListAllocator_alignedAddress c alignment - (c + sizeof_FreeBlock))
              (FreeListAllocator_requiredSize c sz alignment) = (p, s')"
proof -
  from assms(1) have "FreeListAllocator_took s sz alignment (p, s')"
    unfolding FreeListAllocator_Allocate_def by (rule FreeListAllocator_Allocate_loop_result)
  with assms(2) that show ?thesis
    unfolding FreeListAllocator_took_def by (metis prod.inject)
qed

lemma FreeListAllocator_GetAllocationSize_after_Allocate:
  assumes alloc: "FreeListAllocator_Allocate s sz alignment = Some (p, s')" and nn: "p \<noteq> nullptr"
    and p2: "power_of_two alignment" and small: "alignment \<le> 128"
  shows "\<exists>e. e \<le> MIN_BLOCK_SIZE \<and> FreeListAllocator_GetAllocationSize s' p = sz + e"
proof -
  from alloc nn obtain pv c where
    fit: "FreeListAllocator_requiredSize c sz alignment \<le> load64 (fl_mem s) c"
    and take: "FreeListAllocator_Allocate_take s pv c
              (FreeListAllocator_alignedAddress c alignment)
              (FreeListAllocator_alignedAddress c alignment - (c + sizeof_FreeBlock))
              (FreeListAllocator_requiredSize c sz alignment) = (p, s')"
    by (rule FreeListAllocator_Allocate_cases)
  let ?pad = "FreeListAllocator_alignedAddress c alignment - (c + sizeof_FreeBlock)"
  let ?req = "FreeListAllocator_requiredSize c sz alignment"
  let ?cur = "load64 (fl_mem s) c"
  note R = FreeListAllocator_Allocate_take_result [OF take]
  have "unat alignment \<le> 128" using small by (simp add: word_le_nat_alt)
  then have "unat ?pad < 256" using alignmentPadding_bound(2) [OF p2, of c] by simp
  then have pad: "(ucast (ucast ?pad :: 8 word) :: 64 word) = ?pad"
    by (rule ucast_byte_roundtrip)
  have g: "FreeListAllocator_GetAllocationSize s' p =
        (if ?cur - ?req \<le> MIN_BLOCK_SIZE then ?cur else ?req) - sizeof_AllocationHeader - ?pad"
    using nn R pad by (simp add: FreeListAllocator_GetAllocationSize_def Let_def)
  have req: "?req = sz + sizeof_AllocationHeader + ?pad"
    by (simp add: FreeListAllocator_requiredSize_def)
  show ?thesis
  proof (cases "?cur - ?req \<le> MIN_BLOCK_SIZE")
    case True
    have "FreeListAllocator_GetAllocationSize s' p = sz + (?cur - ?req)"
      using True g by (simp add: req)
    with True show ?thesis by blast
  next
    case False
    have "FreeListAllocator_GetAllocationSize s' p = sz + 0"
      using False g by (simp add: req)
    then show ?thesis by (intro exI [of _ 0]) simp
  qed
qed


lemma FreeListAllocator_Allocate_linked_cases:
  assumes alloc: "FreeListAllocator_Allocate s sz alignment = Some (p, s')" and nn: "p \<noteq> nullptr"
    and l: "linked (fl_mem s) 8 (fl_m_freeList s) bs"
  obtains pv c where "c \<in> set bs"
    and "FreeListAllocator_requiredSize c sz alignment \<le> load64 (fl_mem s) c"
    and "FreeListAllocator_Allocate_take s pv c
              (FreeListAllocator_alignedAddress c alignment)
              (FreeListAllocator_alignedAddress c alignment - (c + sizeof_FreeBlock))
              (FreeListAllocator_requiredSize c sz alignment) = (p, s')"
proof -
  have r: "FreeListAllocator_Allocate_loop s sz alignment nullptr (fl_m_freeList s) = Some (p, s')"
    using alloc unfolding FreeListAllocator_Allocate_def .
  from FreeListAllocator_Allocate_loop_linked [OF l, of sz alignment nullptr]
  show ?thesis
  proof (elim disjE conjE exE)
    assume "FreeListAllocator_Allocate_loop s sz alignment nullptr (fl_m_freeList s)
              = Some (nullptr, s)"
    with r have "p = nullptr" by simp
    with nn show ?thesis by simp
  next
    fix pv c
    assume c: "c \<in> set bs"
      and fit: "FreeListAllocator_requiredSize c sz alignment \<le> load64 (fl_mem s) c"
      and "FreeListAllocator_Allocate_loop s sz alignment nullptr (fl_m_freeList s) =
              Some (FreeListAllocator_Allocate_take s pv c
                  (FreeListAllocator_alignedAddress c alignment)
                  (FreeListAllocator_alignedAddress c alignment - (c + sizeof_FreeBlock))
                  (FreeListAllocator_requiredSize c sz alignment))"
    with r have "FreeListAllocator_Allocate_take s pv c
                  (FreeListAllocator_alignedAddress c alignment)
                  (FreeListAllocator_alignedAddress c alignment - (c + sizeof_FreeBlock))
                  (FreeListAllocator_requiredSize c sz alignment) = (p, s')" by simp
    with c fit show ?thesis by (rule that)
  qed
qed

lemma alignedAddress_unat:
  assumes p2: "power_of_two alignment"
    and nw: "unat current + unat alignment + 32 \<le> 2 ^ 64"
  shows "unat current + 32 \<le> unat (FreeListAllocator_alignedAddress current alignment)"
    and "unat (FreeListAllocator_alignedAddress current alignment - (current + sizeof_FreeBlock)) =
           unat (FreeListAllocator_alignedAddress current alignment) - unat current - 16"
proof -
  from p2 obtain k where k: "k < 64" "unat alignment = 2 ^ k"
    and a: "FreeListAllocator_alignedAddress current alignment =
       (current + 32 + mask k) - take_bit k (current + 32 + mask k)"
    by (rule alignedAddress_eq)
  let ?x = "current + 32 + mask k :: 64 word"
  let ?t = "take_bit k ?x"
  have pos: "(0::nat) < 2 ^ k" by simp
  have um: "unat (mask k :: 64 word) = 2 ^ k - 1"
    using k(1) unat_exp_64 [of k] by (simp add: mask_eq_exp_minus_1 unat_minus_one)
  have lt: "unat current + 32 < 2 ^ 64" using nw k(2) pos by linarith
  then have c32: "unat (current + 32) = unat current + 32"
    using unat_add_lem [of current 32] by simp
  have "unat (current + 32) + unat (mask k :: 64 word) < 2 ^ 64"
    using nw k(2) um c32 pos by linarith
  then have ux: "unat ?x = unat current + 32 + (2 ^ k - 1)"
    using unat_add_lem [of "current + 32" "mask k"] um c32 by simp
  have ut: "unat ?t = unat ?x mod 2 ^ k"
    by (simp only: unsigned_take_bit_eq) (rule take_bit_eq_mod)
  then have "unat ?t \<le> unat ?x" by simp
  then have "?t \<le> ?x" by (simp add: word_le_nat_alt)
  then have "unat (?x - ?t) = unat ?x - unat ?t" by (rule unat_sub)
  then have ua: "unat (FreeListAllocator_alignedAddress current alignment) =
      unat ?x - unat ?x mod 2 ^ k" using a ut by simp
  have "unat ?x mod 2 ^ k < 2 ^ k" using pos by (rule mod_less_divisor)
  then show lo: "unat current + 32 \<le> unat (FreeListAllocator_alignedAddress current alignment)"
    using ua ux by linarith
  have c16: "unat (current + sizeof_FreeBlock) = unat current + 16"
    using lt unat_add_lem [of current 16] by (simp add: sizeof_FreeBlock_def)
  then have "current + sizeof_FreeBlock \<le> FreeListAllocator_alignedAddress current alignment"
    using lo by (simp add: word_le_nat_alt)
  then have "unat (FreeListAllocator_alignedAddress current alignment - (current + sizeof_FreeBlock))
      = unat (FreeListAllocator_alignedAddress current alignment) - unat (current + sizeof_FreeBlock)"
    by (rule unat_sub)
  then show "unat (FreeListAllocator_alignedAddress current alignment - (current + sizeof_FreeBlock)) =
           unat (FreeListAllocator_alignedAddress current alignment) - unat current - 16"
    using c16 by simp
qed

lemma FreeListAllocator_Allocate_owned:
  assumes alloc: "FreeListAllocator_Allocate s sz alignment = Some (p, s')" and nn: "p \<noteq> nullptr"
    and p2: "power_of_two alignment" and nz: "sz \<noteq> 0"
    and wf: "FreeListAllocator_freeList_is s bs"
    and ok: "buffer_ok (fl_m_buffer s) (fl_m_bufferSize s)"
    and nw: "FreeListAllocator_no_wrap s sz alignment"
  shows "FreeListAllocator_Owns s' p"
proof -
  from wf have l: "linked (fl_mem s) 8 (fl_m_freeList s) bs"
    and inb: "\<forall>b \<in> set bs. FreeListAllocator_block_in_buffer s b"
    by (simp_all add: FreeListAllocator_freeList_is_def)
  from alloc nn l obtain pv c where c: "c \<in> set bs"
    and fit: "FreeListAllocator_requiredSize c sz alignment \<le> load64 (fl_mem s) c"
    and take: "FreeListAllocator_Allocate_take s pv c
              (FreeListAllocator_alignedAddress c alignment)
              (FreeListAllocator_alignedAddress c alignment - (c + sizeof_FreeBlock))
              (FreeListAllocator_requiredSize c sz alignment) = (p, s')"
    by (rule FreeListAllocator_Allocate_linked_cases)
  let ?b = "fl_m_buffer s" and ?n = "fl_m_bufferSize s"
  let ?a = "FreeListAllocator_alignedAddress c alignment"
  let ?pad = "?a - (c + sizeof_FreeBlock)"
  let ?req = "FreeListAllocator_requiredSize c sz alignment"
  note R = FreeListAllocator_Allocate_take_result [OF take]
  from inb c have bc: "?b \<le> c"
    and cend: "unat c + unat (load64 (fl_mem s) c) \<le> unat ?b + unat ?n"
    by (simp_all add: FreeListAllocator_block_in_buffer_def)
  from nw have nw1: "unat ?b + unat ?n + unat alignment + 32 \<le> 2 ^ 64"
    and nw2: "unat sz + unat alignment + 32 \<le> 2 ^ 64"
    by (simp_all add: FreeListAllocator_no_wrap_def)
  have cnw: "unat c + unat alignment + 32 \<le> 2 ^ 64" using cend nw1 by linarith
  note A = alignedAddress_unat [OF p2 cnw]
  have padlt: "unat ?pad < 16 + unat alignment" by (rule alignmentPadding_bound(2) [OF p2])
  have "unat sz + 16 < 2 ^ 64" using nw2 by linarith
  then have s16: "unat (sz + sizeof_AllocationHeader) = unat sz + 16"
    using unat_add_lem [of sz 16] by (simp add: sizeof_AllocationHeader_def)
  have "unat (sz + sizeof_AllocationHeader) + unat ?pad < 2 ^ 64"
    using s16 padlt nw2 by linarith
  then have "unat ?req = unat sz + 16 + unat ?pad"
    using unat_add_lem [of "sz + sizeof_AllocationHeader" ?pad] s16
    by (simp add: FreeListAllocator_requiredSize_def)
  then have req: "unat ?req = unat sz + unat ?a - unat c" using A by linarith
  have "unat ?req \<le> unat (load64 (fl_mem s) c)" using fit by (simp add: word_le_nat_alt)
  then have "unat ?a + unat sz \<le> unat ?b + unat ?n" using req cend A(1) by linarith
  moreover have "0 < unat sz" using nz by (simp add: unat_gt_0)
  ultimately have hi: "unat ?a < unat ?b + unat ?n" by linarith
  have "unat ?b \<le> unat c" using bc by (simp add: word_le_nat_alt)
  then have lo: "?b \<le> ?a" using A(1) by (simp add: word_le_nat_alt)
  have "unat (?b + ?n) = unat ?b + unat ?n" by (rule buf_plus_unat [OF ok order_refl])
  then have "?a < ?b + ?n" using hi by (simp add: word_less_nat_alt)
  then show ?thesis using lo R(1,2,3) by (simp add: FreeListAllocator_Owns_def)
qed

section \<open>Exhaustion\<close>

lemma LinearAllocator_Allocate_exhausted:
  assumes "alignment \<noteq> 0" "LinearAllocator_no_wrap s sz alignment"
    and "unat (lin_m_bufferSize s) <
         unat (lin_m_offset s) + unat (LinearAllocator_padding s alignment) + unat sz"
  shows "LinearAllocator_Allocate s sz alignment = Inr (nullptr, s)"
proof -
  have "lin_m_bufferSize s < LinearAllocator_newOffset s sz alignment"
    using LinearAllocator_aligned_offset(3) [OF assms(1,2)] assms(3)
    by (simp add: word_less_nat_alt)
  then show ?thesis using assms(1) by (simp add: LinearAllocator_Allocate_def Let_def)
qed

lemma StackAllocator_Allocate_exhausted:
  assumes "alignment \<noteq> 0" "StackAllocator_no_wrap s sz alignment"
    and "unat (stk_m_bufferSize s) <
         unat (stk_m_offset s) + 16 + unat (StackAllocator_padding s alignment) + unat sz"
  shows "StackAllocator_Allocate s sz alignment = Inr (nullptr, s)"
proof -
  have "stk_m_bufferSize s < StackAllocator_newOffset s sz alignment"
    using StackAllocator_aligned_offset(3) [OF assms(1,2)] assms(3)
    by (simp add: word_less_nat_alt)
  then show ?thesis using assms(1) by (simp add: StackAllocator_Allocate_def Let_def)
qed

lemma FreeListAllocator_Allocate_exhausted:
  assumes "linked (fl_mem s) 8 (fl_m_freeList s) bs"
    and "\<forall>b \<in> set bs. load64 (fl_mem s) b < FreeListAllocator_requiredSize b sz alignment"
  shows "FreeListAllocator_Allocate s sz alignment = Some (nullptr, s)"
  using FreeListAllocator_Allocate_loop_linked [OF assms(1), of sz alignment nullptr] assms(2)
  unfolding FreeListAllocator_Allocate_def by (auto simp: not_le)

lemma PoolAllocator_Allocate_no_class:
  assumes "\<forall>pool \<in> set (pools s). blockSize pool < sz"
  shows "PoolAllocator_Allocate s sz alignment = Inl (RuntimeError ''No suitable pool found'')"
proof -
  from assms have "\<forall>pool \<in> set (pools s). \<not> sz \<le> blockSize pool" by (simp add: not_le)
  then have "findPool s sz = Inl (RuntimeError ''No suitable pool found'')"
    by (simp add: findPool_def findPool_from_Inl)
  then show ?thesis by (simp add: PoolAllocator_Allocate_def)
qed

lemma LinearAllocator_null_only_when_exhausted:
  assumes a: "LinearAllocator_Allocate s sz alignment = Inr (nullptr, s')"
    and ok: "buffer_ok (lin_m_buffer s) (lin_m_bufferSize s)"
    and nw: "LinearAllocator_no_wrap s sz alignment"
  shows "s' = s \<and> LinearAllocator_newOffset s sz alignment > lin_m_bufferSize s"
proof (cases "LinearAllocator_newOffset s sz alignment > lin_m_bufferSize s")
  case True
  with a show ?thesis
    by (auto simp: LinearAllocator_Allocate_def Let_def split: if_splits)
next
  case False
  let ?q = "lin_m_offset s + LinearAllocator_padding s alignment"
  from a have al: "alignment \<noteq> 0"
    by (auto simp: LinearAllocator_Allocate_def split: if_splits)
  note A = LinearAllocator_aligned_offset [OF al nw]
  have "?q \<le> LinearAllocator_newOffset s sz alignment"
    using A(2,3) by (simp add: word_le_nat_alt)
  with False have "?q \<le> lin_m_bufferSize s" by simp
  from buf_plus_neq_null [OF ok this] have "lin_m_buffer s + ?q \<noteq> nullptr" .
  with a al False show ?thesis
    by (simp add: LinearAllocator_Allocate_def Let_def add.assoc)
qed

lemma StackAllocator_null_only_when_exhausted:
  assumes a: "StackAllocator_Allocate s sz alignment = Inr (nullptr, s')"
    and ok: "buffer_ok (stk_m_buffer s) (stk_m_bufferSize s)"
    and nw: "StackAllocator_no_wrap s sz alignment"
  shows "s' = s \<and> StackAllocator_newOffset s sz alignment > stk_m_bufferSize s"
proof (cases "StackAllocator_newOffset s sz alignment > stk_m_bufferSize s")
  case True
  with a show ?thesis
    by (auto simp: StackAllocator_Allocate_def Let_def split: if_splits)
next
  case False
  let ?q = "stk_m_offset s + StackAllocator_headerSize + StackAllocator_padding s alignment"
  from a have al: "alignment \<noteq> 0"
    by (auto simp: StackAllocator_Allocate_def split: if_splits)
  note A = StackAllocator_aligned_offset [OF al nw]
  have "?q \<le> StackAllocator_newOffset s sz alignment"
    using A(2,3) by (simp add: word_le_nat_alt)
  with False have "?q \<le> stk_m_bufferSize s" by simp
  from buf_plus_neq_null [OF ok this] have "stk_m_buffer s + ?q \<noteq> nullptr" .
  with a al False show ?thesis
    by (simp add: StackAllocator_Allocate_def Let_def add.assoc)
qed

section \<open>Facts about the example states\<close>

lemma alignedAddress_4096: "FreeListAllocator_alignedAddress 4096 8 = 4128"
  using alignedAddress_8' (3) [of 4096] by simp

lemma fresh_free_list:
  "fl_m_freeList (FreeListAllocator_new mem0 4096 1024) = 4096"
  "fl_m_buffer (FreeListAllocator_new mem0 4096 1024) = 4096"
  "fl_m_bufferSize (FreeListAllocator_new mem0 4096 1024) = 1024"
  "load64 (fl_mem (FreeListAllocator_new mem0 4096 1024)) 4096 = 1024"
  "load64 (fl_mem (FreeListAllocator_new mem0 4096 1024)) 4104 = 0"
  by (simp_all add: FreeListAllocator_new_def Let_def load64_store64_same load64_store64_other
      nullptr_def)

lemma fresh_free_list_linked:
  "linked (fl_mem (FreeListAllocator_new mem0 4096 1024)) 8
     (fl_m_freeList (FreeListAllocator_new mem0 4096 1024)) [4096]"
  by (simp add: fresh_free_list nullptr_def)

lemma power_of_two_8: "power_of_two 8" and power_of_two_64: "power_of_two 64"
  unfolding power_of_two_def
  by (rule bexI [of _ 3], simp, simp) (rule bexI [of _ 6], simp, simp)

lemma S5_pool_freeLists:
  "PoolAllocator_freeLists_are S5_pool [ [4192, 4160, 4128, 4096], [8320, 8192] ]"
proof -
  have 1: "Pool_freeList_is S5_mem (S5_pools ! 0) [4192, 4160, 4128, 4096]"
    by (simp add: Pool_freeList_is_def S5_pools_def S5_mem_def nullptr_def Pool_contains_def
        load64_store64_same load64_store64_other)
  have 2: "Pool_freeList_is S5_mem (S5_pools ! 1) [8320, 8192]"
    by (simp add: Pool_freeList_is_def S5_pools_def S5_mem_def nullptr_def Pool_contains_def
        load64_store64_same load64_store64_other)
  from 1 2 show ?thesis
    by (simp add: PoolAllocator_freeLists_are_def S5_pool_def S5_pools_def All_less_Suc)
qed

lemma S1_first:
  "LinearAllocator_Allocate (LinearAllocator_new mem0 4096 128) 100 8 = Inr (4096, S1_linear)"
  by (simp add: S1_linear_def LinearAllocator_new_def LinearAllocator_Allocate_def
      LinearAllocator_newOffset_def LinearAllocator_padding_def Let_def)

lemma S1_stack_first:
  "StackAllocator_Allocate (StackAllocator_new mem0 4096 128) 84 8 = Inr (4112, S1_stack)"
  by (simp add: S1_stack_def StackAllocator_new_def StackAllocator_Allocate_def
      StackAllocator_newOffset_def StackAllocator_padding_def Let_def StackAllocator_headerSize_def)

lemma fresh_free_list_Allocate:
  "\<exists>s'. FreeListAllocator_Allocate (FreeListAllocator_new mem0 4096 1024) 200 8 = Some (4128, s')"
proof -
  have ok: "buffer_ok 4096 1024" by (simp add: buffer_ok_def nullptr_def)
  have al: "(4096 :: 64 word) mod 8 = 0" by simp
  show ?thesis
    by (simp add: fl_eval buf_rules [OF ok] alignedAddress_8' [OF al])
qed

lemma fresh_free_list_is:
  "FreeListAllocator_freeList_is (FreeListAllocator_new mem0 4096 1024) [4096]"
  using fresh_free_list_linked
  by (simp add: FreeListAllocator_freeList_is_def FreeListAllocator_block_in_buffer_def
      fresh_free_list)

lemma S5_pool_Allocate:
  "\<exists>s'. PoolAllocator_Allocate S5_pool 20 64 = Inr (4192, s')"
  by (simp add: PoolAllocator_Allocate_def findPool_def S5_pool_def S5_pools_def nullptr_def
      Let_def)

lemma StackAllocator_GetAllocationSize_after_Allocate:
  assumes a: "StackAllocator_Allocate s sz alignment = Inr (p, s')" "p \<noteq> nullptr"
    "StackAllocator_no_wrap s sz alignment" "buffer_ok (stk_m_buffer s) (stk_m_bufferSize s)"
    and nz: "sz \<noteq> 0"
  shows "StackAllocator_Owns s' p" and "StackAllocator_GetAllocationSize s' p = sz"
proof -
  show o: "StackAllocator_Owns s' p"
    using StackAllocator_Allocate_aligned_owned(2) [OF a] nz by simp
  show "StackAllocator_GetAllocationSize s' p = sz"
    using o StackAllocator_Allocate_header [OF a(1,2)]
    by (simp add: StackAllocator_GetAllocationSize_def)
qed

section \<open>Sizes recorded by the stack allocator\<close>

lemma words_apart:
  fixes a b :: "64 word"
  assumes "unat a + 8 \<le> unat b" "unat b + 8 \<le> 2 ^ 64"
  shows "8 \<le> unat (b - a)" "8 \<le> unat (a - b)"
  using assms unat_sub_if_size [of b a] unat_sub_if_size [of a b]
  by (simp_all add: word_size)

text \<open>
  A later allocation writes its header above the used part of the buffer, so the headers of
  the older allocations, and with them their recorded sizes, stay as they are.
\<close>

lemma StackAllocator_Allocate_keeps_older_sizes:
  assumes a: "StackAllocator_Allocate s sz alignment = Inr (p, s')"
    and nw: "StackAllocator_no_wrap s sz alignment"
    and ok: "buffer_ok (stk_m_buffer s) (stk_m_bufferSize s)"
    and valid: "StackAllocator_ValidateInternalState s"
    and own: "StackAllocator_Owns s q"
    and hdr: "unat (stk_m_buffer s) + 16 \<le> unat q"
  shows "StackAllocator_Owns s' q"
    and "StackAllocator_GetAllocationSize s' q = StackAllocator_GetAllocationSize s q"
proof -
  let ?b = "stk_m_buffer s" and ?o = "stk_m_offset s" and ?n = "stk_m_bufferSize s"
  have lt64: "unat x < 2 ^ 64" for x :: "64 word"
    using unsigned_less [of x] by simp
  from valid have on: "?o \<le> ?n" by (simp add: StackAllocator_ValidateInternalState_def)
  have ubo: "unat (?b + ?o) = unat ?b + unat ?o" by (rule buf_plus_unat [OF ok on])
  from own have q: "unat ?b \<le> unat q" "unat q < unat ?b + unat ?o"
    using ubo by (simp_all add: StackAllocator_Owns_def word_le_nat_alt word_less_nat_alt)
  have h16: "unat (q - StackAllocator_headerSize) = unat q - 16"
    using hdr unat_sub [of 16 q]
    by (simp add: StackAllocator_headerSize_def word_le_nat_alt)
  have "StackAllocator_Owns s' q \<and>
        StackAllocator_GetAllocationSize s' q = StackAllocator_GetAllocationSize s q"
  proof (cases "p = nullptr \<and> s' = s")
    case True
    then show ?thesis using own by simp
  next
    case False
    with a have al: "alignment \<noteq> 0"
      and fit: "StackAllocator_newOffset s sz alignment \<le> ?n"
      and p: "p = ?b + (?o + StackAllocator_headerSize + StackAllocator_padding s alignment)"
      and o': "stk_m_offset s' = StackAllocator_newOffset s sz alignment"
      and b': "stk_m_buffer s' = ?b"
      and m': "stk_mem s' = store64 (store64 (stk_mem s) (p - StackAllocator_headerSize) sz)
           (p - StackAllocator_headerSize + 8)
           (StackAllocator_headerSize + StackAllocator_padding s alignment)"
      by (auto simp: StackAllocator_Allocate_def Let_def add.assoc split: if_splits)
    note A = StackAllocator_aligned_offset [OF al nw]
    let ?q = "?o + StackAllocator_headerSize + StackAllocator_padding s alignment"
    have "?q \<le> StackAllocator_newOffset s sz alignment"
      using A(2,3) by (simp add: word_le_nat_alt)
    then have qn: "?q \<le> ?n" using fit by simp
    have up: "unat p = unat ?b + unat ?o + 16 + unat (StackAllocator_padding s alignment)"
      using buf_plus_unat [OF ok qn] p A(2) by simp
    have un: "unat (?b + StackAllocator_newOffset s sz alignment) =
        unat ?b + (unat ?o + 16 + unat (StackAllocator_padding s alignment) + unat sz)"
      using buf_plus_unat [OF ok fit] A(3) by simp
    have own': "StackAllocator_Owns s' q"
      using q un o' b' by (simp add: StackAllocator_Owns_def word_le_nat_alt word_less_nat_alt)
    have p16: "16 \<le> unat p" using up by simp
    then have ph: "unat (p - StackAllocator_headerSize) = unat p - 16"
      using unat_sub [of 16 p] by (simp add: StackAllocator_headerSize_def word_le_nat_alt)
    have "unat ?b + unat ?n < 2 ^ 64" using ok by (simp add: buffer_ok_def)
    moreover have "unat ?q \<le> unat ?n" using qn by (simp add: word_le_nat_alt)
    ultimately have plt: "unat p < 2 ^ 64 - 0" using up A(2) by simp
    let ?h = "p - StackAllocator_headerSize" and ?g = "q - StackAllocator_headerSize"
    have gap: "unat ?g + 8 \<le> unat ?h" using h16 ph q up hdr by linarith
    have "unat ?h + unat (8 :: 64 word) < 2 ^ 64"
      using ph p16 lt64 [of p] by simp
    then have h8: "unat (?h + 8) = unat ?h + 8"
      using unat_add_lem [of ?h 8] by simp
    have hlt: "unat ?h + 16 \<le> 2 ^ 64"
      using ph p16 lt64 [of p] by simp
    note d1 = words_apart [OF gap] words_apart [of ?g "?h + 8"]
    have "load64 (stk_mem s') ?g = load64 (stk_mem s) ?g"
      using d1 gap h8 hlt by (simp add: m' load64_store64_other)
    then show ?thesis using own own' by (simp add: StackAllocator_GetAllocationSize_def)
  qed
  then show "StackAllocator_Owns s' q"
    and "StackAllocator_GetAllocationSize s' q = StackAllocator_GetAllocationSize s q"
    by simp_all
qed

section \<open>Claims\<close>

text \<open>
  C1 (the free-list allocator validates in every reachable state). The code does not keep
  this: \<open>Allocate\<close> takes \<open>requiredSize\<close> bytes off the free list and adds
  \<open>requiredSize - sizeof(FreeBlock)\<close> to \<open>m_allocatedSize\<close>, so after the first
  allocation the sum that \<open>ValidateInternalState\<close> compares with \<open>m_bufferSize\<close> is 16
  short. For a buffer of 1024 bytes at address 4096 and \<open>Allocate(200, 8)\<close>: 792 free bytes,
  216 allocated, and \<open>ValidateInternalState\<close> returns false.
\<close>

theorem C1_Validate_fails_after_Allocate:
  "\<exists>p s. FreeListAllocator_Allocate (FreeListAllocator_new mem0 4096 1024) 200 8 = Some (p, s) \<and>
     p \<noteq> nullptr \<and>
     FreeListAllocator_ValidateInternalState s = Some False \<and>
     FreeListAllocator_freeMemory s = Some 792 \<and>
     FreeListAllocator_GetTotalAllocated s = 216 \<and>
     fl_m_bufferSize s = 1024"
proof -
  have ok: "buffer_ok 4096 1024" by (simp add: buffer_ok_def nullptr_def)
  have al: "(4096 :: 64 word) mod 8 = 0" by simp
  show ?thesis
    by (simp add: fl_eval buf_rules [OF ok] alignedAddress_8' [OF al]
        FreeListAllocator_ValidateInternalState_def FreeListAllocator_Validate_loop_null
        FreeListAllocator_Validate_loop_step FreeListAllocator_freeMemory_def
        FreeListAllocator_freeMemory_loop_null FreeListAllocator_freeMemory_loop_step
        FreeListAllocator_GetTotalAllocated_def)
qed

text \<open>
  C2 (\<open>Allocate\<close> returns null and never raises when the request cannot be satisfied).
  The pool allocator is the exception: \<open>findPool\<close> throws \<open>std::runtime_error\<close> when
  the size exceeds the \<open>blockSize\<close> of every pool, and \<open>Allocate\<close> lets it pass. With the
  pools \<open>(32, 4)\<close> and \<open>(128, 2)\<close>, \<open>Allocate(200, 8)\<close> raises.
\<close>

theorem C2_counterexample_pool_Allocate_raises:
  "PoolAllocator_new mem0 [((32, 4), 4096), ((128, 2), 8192)] = Inr S5_pool \<and>
   map blockSize (pools S5_pool) = [32, 128] \<and>
   PoolAllocator_Allocate S5_pool 200 8 = Inl (RuntimeError ''No suitable pool found'') \<and>
   PoolAllocator_Allocate S5_pool 200 8 \<noteq> Inr (nullptr, S5_pool)"
  by (simp add: S5_pool_constructed)
     (simp add: PoolAllocator_Allocate_def findPool_def S5_pool_def S5_pools_def)

text \<open>
  C2 as amended. \<open>Allocate\<close> returns null and leaves the allocator unchanged when the request
  does not fit: for the linear and the stack allocator (alignment not 0, sums not wrapping
  around) when offset, padding, header and size together exceed the buffer size; for the
  free-list allocator when the free list is a list that ends and each of its blocks is
  smaller than the size required of it; for the pool allocator when the first pool with
  \<open>blockSize \<ge> size\<close> has an empty free list. When the size exceeds every pool's
  \<open>blockSize\<close>, the pool allocator's \<open>Allocate\<close> raises
  \<open>std::runtime_error("No suitable pool found")\<close>.
\<close>

theorem C2_Allocate_null_on_exhaustion:
  "(lal \<noteq> 0 \<and> LinearAllocator_no_wrap ls lsz lal \<and>
    unat (lin_m_bufferSize ls) <
      unat (lin_m_offset ls) + unat (LinearAllocator_padding ls lal) + unat lsz
    \<longrightarrow> LinearAllocator_Allocate ls lsz lal = Inr (nullptr, ls)) \<and>
   (sal \<noteq> 0 \<and> StackAllocator_no_wrap ss ssz sal \<and>
    unat (stk_m_bufferSize ss) <
      unat (stk_m_offset ss) + 16 + unat (StackAllocator_padding ss sal) + unat ssz
    \<longrightarrow> StackAllocator_Allocate ss ssz sal = Inr (nullptr, ss)) \<and>
   (linked (fl_mem fs) 8 (fl_m_freeList fs) bs \<and>
    (\<forall>b \<in> set bs. load64 (fl_mem fs) b < FreeListAllocator_requiredSize b fsz fal)
    \<longrightarrow> FreeListAllocator_Allocate fs fsz fal = Some (nullptr, fs)) \<and>
   (findPool ps psz = Inr i \<and> freeList (pools ps ! i) = nullptr
    \<longrightarrow> PoolAllocator_Allocate ps psz pal = Inr (nullptr, ps)) \<and>
   ((\<forall>pool \<in> set (pools qs). blockSize pool < qsz)
    \<longrightarrow> PoolAllocator_Allocate qs qsz qal = Inl (RuntimeError ''No suitable pool found''))"
  using LinearAllocator_Allocate_exhausted [of lal ls lsz]
    StackAllocator_Allocate_exhausted [of sal ss ssz]
    FreeListAllocator_Allocate_exhausted [of fs bs fsz fal]
    PoolAllocator_Allocate_no_class [of qs qsz qal]
  by (simp add: PoolAllocator_Allocate_def)

theorem C2_witness:
  "(8 :: size_t) \<noteq> 0 \<and> LinearAllocator_no_wrap S1_linear 40 8 \<and>
   unat (lin_m_bufferSize S1_linear) <
      unat (lin_m_offset S1_linear) + unat (LinearAllocator_padding S1_linear 8) + unat (40 :: size_t) \<and>
   LinearAllocator_Allocate S1_linear 40 8 = Inr (nullptr, S1_linear) \<and>
   StackAllocator_no_wrap S1_stack 40 8 \<and>
   unat (stk_m_bufferSize S1_stack) <
      unat (stk_m_offset S1_stack) + 16 + unat (StackAllocator_padding S1_stack 8) + unat (40 :: size_t) \<and>
   StackAllocator_Allocate S1_stack 40 8 = Inr (nullptr, S1_stack) \<and>
   linked (fl_mem (FreeListAllocator_new mem0 4096 1024)) 8
     (fl_m_freeList (FreeListAllocator_new mem0 4096 1024)) [4096] \<and>
   load64 (fl_mem (FreeListAllocator_new mem0 4096 1024)) 4096
     < FreeListAllocator_requiredSize 4096 2000 8 \<and>
   FreeListAllocator_Allocate (FreeListAllocator_new mem0 4096 1024) 2000 8
     = Some (nullptr, FreeListAllocator_new mem0 4096 1024) \<and>
   findPool S5_pool_exhausted 20 = Inr 0 \<and> freeList (pools S5_pool_exhausted ! 0) = nullptr \<and>
   PoolAllocator_Allocate S5_pool_exhausted 20 8 = Inr (nullptr, S5_pool_exhausted) \<and>
   map blockSize (pools S5_pool) = [32, 128] \<and>
   PoolAllocator_Allocate S5_pool 200 8 = Inl (RuntimeError ''No suitable pool found'')"
proof -
  have l: "LinearAllocator_no_wrap S1_linear 40 8"
    "unat (lin_m_bufferSize S1_linear) <
      unat (lin_m_offset S1_linear) + unat (LinearAllocator_padding S1_linear 8) + unat (40 :: size_t)"
    by (simp_all add: LinearAllocator_no_wrap_def S1_linear_def LinearAllocator_new_def
        LinearAllocator_padding_def)
  have s: "StackAllocator_no_wrap S1_stack 40 8"
    "unat (stk_m_bufferSize S1_stack) <
      unat (stk_m_offset S1_stack) + 16 + unat (StackAllocator_padding S1_stack 8) + unat (40 :: size_t)"
    by (simp_all add: StackAllocator_no_wrap_def S1_stack_def StackAllocator_new_def
        StackAllocator_padding_def StackAllocator_headerSize_def)
  have f: "load64 (fl_mem (FreeListAllocator_new mem0 4096 1024)) 4096
     < FreeListAllocator_requiredSize 4096 2000 8"
    by (simp add: fresh_free_list FreeListAllocator_requiredSize_def alignedAddress_4096
        sizeof_AllocationHeader_def sizeof_FreeBlock_def)
  have p: "findPool S5_pool_exhausted 20 = Inr 0" "freeList (pools S5_pool_exhausted ! 0) = nullptr"
    by (simp_all add: findPool_def S5_pool_exhausted_def S5_pool_def)
  have q: "map blockSize (pools S5_pool) = [32, 128]"
    by (simp add: S5_pool_def S5_pools_def)
  from C2_Allocate_null_on_exhaustion
    [of 8 S1_linear 40 8 S1_stack 40 "FreeListAllocator_new mem0 4096 1024" "[4096]" 2000 8
      S5_pool_exhausted 20 0 8 S5_pool 200 8]
    l s f p q fresh_free_list_linked
  show ?thesis by (simp add: S5_pool_def S5_pools_def)
qed

text \<open>
  C3 (every returned pointer is owned and aligned as requested). The pool allocator does not
  look at the alignment: with the pools \<open>(32, 4)\<close> and \<open>(128, 2)\<close>, the first slab at
  4096, \<open>Allocate(20, 64)\<close> returns 4192, which is not a multiple of 64.
\<close>

theorem C3_counterexample_pool_ignores_alignment:
  "PoolAllocator_new mem0 [((32, 4), 4096), ((128, 2), 8192)] = Inr S5_pool \<and>
   power_of_two 64 \<and>
   map_sum id fst (PoolAllocator_Allocate S5_pool 20 64) = Inr 4192 \<and>
   (4192 :: ptr) \<noteq> nullptr \<and> (4192 :: ptr) mod 64 \<noteq> 0"
  by (simp add: S5_pool_constructed power_of_two_64)
     (simp add: PoolAllocator_Allocate_def findPool_def S5_pool_def S5_pools_def nullptr_def)

text \<open>
  C3 as amended, for a call of \<open>Allocate\<close> that returns a non-null pointer \<open>p\<close>.
  Linear and stack allocator (on a buffer that \<open>new[]\<close> can have returned, sums not wrapping
  around): the distance of \<open>p\<close> from the buffer address is a multiple of the alignment, so
  \<open>p\<close> is aligned when the buffer address is; \<open>Owns(p)\<close> holds exactly when the size is
  not 0. Free-list allocator: \<open>p\<close> is a multiple of a power-of-two alignment; \<open>Owns(p)\<close>
  holds when the size is not 0, the free list is a list of blocks inside the buffer and the
  sums do not wrap around. Pool allocator: the result does not depend on the alignment;
  when each pool's free list is a list of blocks inside its slab, \<open>p\<close> is the head of the
  chosen pool's list, \<open>Owns(p)\<close> holds, and the lists stay such lists.
\<close>

theorem C3_returned_pointers:
  "(LinearAllocator_Allocate ls lsz lal = Inr (lp, ls') \<and> lp \<noteq> nullptr \<and>
    LinearAllocator_no_wrap ls lsz lal \<and> buffer_ok (lin_m_buffer ls) (lin_m_bufferSize ls)
    \<longrightarrow> (lp - lin_m_buffer ls) mod lal = 0 \<and>
        (lin_m_buffer ls mod lal = 0 \<longrightarrow> lp mod lal = 0) \<and>
        (LinearAllocator_Owns ls' lp \<longleftrightarrow> lsz \<noteq> 0)) \<and>
   (StackAllocator_Allocate ss ssz sal = Inr (sp, ss') \<and> sp \<noteq> nullptr \<and>
    StackAllocator_no_wrap ss ssz sal \<and> buffer_ok (stk_m_buffer ss) (stk_m_bufferSize ss)
    \<longrightarrow> (sp - stk_m_buffer ss) mod sal = 0 \<and>
        (stk_m_buffer ss mod sal = 0 \<longrightarrow> sp mod sal = 0) \<and>
        (StackAllocator_Owns ss' sp \<longleftrightarrow> ssz \<noteq> 0)) \<and>
   (FreeListAllocator_Allocate fs fsz fal = Some (fp, fs') \<and> fp \<noteq> nullptr \<and>
    power_of_two fal
    \<longrightarrow> fp mod fal = 0 \<and>
        (fsz \<noteq> 0 \<and> FreeListAllocator_freeList_is fs bs \<and>
         buffer_ok (fl_m_buffer fs) (fl_m_bufferSize fs) \<and>
         FreeListAllocator_no_wrap fs fsz fal \<longrightarrow> FreeListAllocator_Owns fs' fp)) \<and>
   (PoolAllocator_Allocate ps psz pal = Inr (pp, ps') \<and> pp \<noteq> nullptr \<and>
    PoolAllocator_freeLists_are ps bss
    \<longrightarrow> PoolAllocator_Allocate ps psz pal' = Inr (pp, ps') \<and>
        PoolAllocator_Owns ps' pp \<and>
        (\<exists>i. findPool ps psz = Inr i \<and> i < length (pools ps) \<and> bss ! i \<noteq> [] \<and>
           pp = hd (bss ! i) \<and> PoolAllocator_freeLists_are ps' (bss[i := tl (bss ! i)])))"
proof (intro conjI impI; (elim conjE)?)
  assume a: "LinearAllocator_Allocate ls lsz lal = Inr (lp, ls')" "lp \<noteq> nullptr"
    "LinearAllocator_no_wrap ls lsz lal" "buffer_ok (lin_m_buffer ls) (lin_m_bufferSize ls)"
  note L = LinearAllocator_Allocate_aligned_owned [OF a]
  show "(lp - lin_m_buffer ls) mod lal = 0" by (rule L(1))
  show "LinearAllocator_Owns ls' lp \<longleftrightarrow> lsz \<noteq> 0" by (rule L(2))
  show "lp mod lal = 0" if "lin_m_buffer ls mod lal = 0" using that by (rule L(3))
next
  assume a: "StackAllocator_Allocate ss ssz sal = Inr (sp, ss')" "sp \<noteq> nullptr"
    "StackAllocator_no_wrap ss ssz sal" "buffer_ok (stk_m_buffer ss) (stk_m_bufferSize ss)"
  note S = StackAllocator_Allocate_aligned_owned [OF a]
  show "(sp - stk_m_buffer ss) mod sal = 0" by (rule S(1))
  show "StackAllocator_Owns ss' sp \<longleftrightarrow> ssz \<noteq> 0" by (rule S(2))
  show "sp mod sal = 0" if "stk_m_buffer ss mod sal = 0" using that by (rule S(3))
next
  assume a: "FreeListAllocator_Allocate fs fsz fal = Some (fp, fs')" "fp \<noteq> nullptr"
    and p2: "power_of_two fal"
  from a obtain pv c where "FreeListAllocator_Allocate_take fs pv c
              (FreeListAllocator_alignedAddress c fal)
              (FreeListAllocator_alignedAddress c fal - (c + sizeof_FreeBlock))
              (FreeListAllocator_requiredSize c fsz fal) = (fp, fs')"
    by (rule FreeListAllocator_Allocate_cases)
  then have "fp = FreeListAllocator_alignedAddress c fal"
    by (rule FreeListAllocator_Allocate_take_result(1))
  then show "fp mod fal = 0" using alignedAddress_mod [OF p2] by simp
  show "FreeListAllocator_Owns fs' fp"
    if "fsz \<noteq> 0" "FreeListAllocator_freeList_is fs bs"
      "buffer_ok (fl_m_buffer fs) (fl_m_bufferSize fs)" "FreeListAllocator_no_wrap fs fsz fal"
    using a p2 that by (rule FreeListAllocator_Allocate_owned)
next
  assume a: "PoolAllocator_Allocate ps psz pal = Inr (pp, ps')" "pp \<noteq> nullptr"
    "PoolAllocator_freeLists_are ps bss"
  show "PoolAllocator_Allocate ps psz pal' = Inr (pp, ps')"
    using a(1) PoolAllocator_Allocate_ignores_alignment [of ps psz pal pal'] by simp
  from PoolAllocator_Allocate_owned [OF a]
  show "PoolAllocator_Owns ps' pp"
    and "\<exists>i. findPool ps psz = Inr i \<and> i < length (pools ps) \<and> bss ! i \<noteq> [] \<and>
           pp = hd (bss ! i) \<and> PoolAllocator_freeLists_are ps' (bss[i := tl (bss ! i)])"
    by blast+
qed

theorem C3_witness:
  "LinearAllocator_Allocate (LinearAllocator_new mem0 4096 128) 100 8 = Inr (4096, S1_linear) \<and>
   (4096 :: ptr) \<noteq> nullptr \<and>
   LinearAllocator_no_wrap (LinearAllocator_new mem0 4096 128) 100 8 \<and>
   buffer_ok 4096 128 \<and>
   LinearAllocator_Owns S1_linear 4096 \<and>
   StackAllocator_Allocate (StackAllocator_new mem0 4096 128) 84 8 = Inr (4112, S1_stack) \<and>
   StackAllocator_no_wrap (StackAllocator_new mem0 4096 128) 84 8 \<and>
   StackAllocator_Owns S1_stack 4112 \<and>
   power_of_two 8 \<and>
   FreeListAllocator_freeList_is (FreeListAllocator_new mem0 4096 1024) [4096] \<and>
   buffer_ok 4096 1024 \<and>
   FreeListAllocator_no_wrap (FreeListAllocator_new mem0 4096 1024) 200 8 \<and>
   (\<exists>fs'. FreeListAllocator_Allocate (FreeListAllocator_new mem0 4096 1024) 200 8 = Some (4128, fs') \<and>
      FreeListAllocator_Owns fs' 4128) \<and>
   PoolAllocator_freeLists_are S5_pool [ [4192, 4160, 4128, 4096], [8320, 8192] ] \<and>
   (\<exists>ps'. PoolAllocator_Allocate S5_pool 20 64 = Inr (4192, ps') \<and>
      PoolAllocator_Allocate S5_pool 20 8 = Inr (4192, ps') \<and>
      PoolAllocator_Owns ps' 4192 \<and>
      PoolAllocator_freeLists_are ps' [ [4160, 4128, 4096], [8320, 8192] ])"
proof -
  let ?ls = "LinearAllocator_new mem0 4096 128" and ?ss = "StackAllocator_new mem0 4096 128"
    and ?fs = "FreeListAllocator_new mem0 4096 1024"
  have nn: "(4096 :: ptr) \<noteq> nullptr" "(4112 :: ptr) \<noteq> nullptr" "(4128 :: ptr) \<noteq> nullptr"
    "(4192 :: ptr) \<noteq> nullptr"
    by (simp_all add: nullptr_def)
  have l: "LinearAllocator_no_wrap ?ls 100 8" "buffer_ok (lin_m_buffer ?ls) (lin_m_bufferSize ?ls)"
    "buffer_ok 4096 128"
    by (simp_all add: LinearAllocator_no_wrap_def LinearAllocator_new_def
        LinearAllocator_padding_def buffer_ok_def nullptr_def)
  have s: "StackAllocator_no_wrap ?ss 84 8" "buffer_ok (stk_m_buffer ?ss) (stk_m_bufferSize ?ss)"
    by (simp_all add: StackAllocator_no_wrap_def StackAllocator_new_def
        StackAllocator_padding_def StackAllocator_headerSize_def buffer_ok_def nullptr_def)
  have f: "buffer_ok (fl_m_buffer ?fs) (fl_m_bufferSize ?fs)" "buffer_ok 4096 1024"
    "FreeListAllocator_no_wrap ?fs 200 8"
    by (simp_all add: fresh_free_list FreeListAllocator_no_wrap_def buffer_ok_def nullptr_def)
  from fresh_free_list_Allocate obtain fs' where
    fa: "FreeListAllocator_Allocate ?fs 200 8 = Some (4128, fs')" ..
  from S5_pool_Allocate obtain ps' where
    pa: "PoolAllocator_Allocate S5_pool 20 64 = Inr (4192, ps')" ..
  have fi: "findPool S5_pool 20 = Inr 0"
    by (simp add: findPool_def S5_pool_def S5_pools_def)
  from C3_returned_pointers
    [of ?ls 100 8 4096 S1_linear ?ss 84 8 4112 S1_stack ?fs 200 8 4128 fs' "[4096]"
      S5_pool 20 64 4192 ps' "[ [4192, 4160, 4128, 4096], [8320, 8192] ]" 8]
    S1_first S1_stack_first nn l s f fa pa power_of_two_8 fresh_free_list_is S5_pool_freeLists fi
  show ?thesis by auto
qed

text \<open>
  C4 (scenario S3). On a buffer of 1024 bytes at an 8-aligned address, whatever the memory
  held before: the three allocations of 200 bytes succeed; after \<open>Free(b)\<close>, \<open>Free(a)\<close>,
  \<open>Free(c)\<close> the free list is one block, at the start of the buffer, of size 1024 and with
  no successor; and \<open>Allocate(900, 8)\<close> then returns a non-null pointer.
\<close>

theorem C4_free_list_coalesces_to_one_block:
  assumes ok: "buffer_ok buf 1024" and al: "buf mod 8 = 0"
  shows "\<exists>a b c s6 p. S3_scenario mem buf = Some (a, b, c, s6, p) \<and>
           a \<noteq> nullptr \<and> b \<noteq> nullptr \<and> c \<noteq> nullptr \<and>
           fl_m_freeList s6 = fl_m_buffer s6 \<and> fl_m_buffer s6 = buf \<and>
           load64 (fl_mem s6) (fl_m_freeList s6) = fl_m_bufferSize s6 \<and>
           fl_m_bufferSize s6 = 1024 \<and>
           load64 (fl_mem s6) (fl_m_freeList s6 + 8) = nullptr \<and>
           p \<noteq> nullptr"
  unfolding S3_scenario_def
  by (simp add: fl_eval buf_rules [OF ok] alignedAddress_8' [OF al])

theorem C4_witness:
  "buffer_ok 4096 1024 \<and> (4096 :: ptr) mod 8 = 0 \<and>
   (\<exists>a b c s6 p. S3_scenario mem0 4096 = Some (a, b, c, s6, p) \<and>
      a \<noteq> nullptr \<and> b \<noteq> nullptr \<and> c \<noteq> nullptr \<and>
      fl_m_freeList s6 = fl_m_buffer s6 \<and> fl_m_buffer s6 = 4096 \<and>
      load64 (fl_mem s6) (fl_m_freeList s6) = fl_m_bufferSize s6 \<and>
      fl_m_bufferSize s6 = 1024 \<and>
      load64 (fl_mem s6) (fl_m_freeList s6 + 8) = nullptr \<and>
      p \<noteq> nullptr)"
proof -
  have ok: "buffer_ok 4096 1024" by (simp add: buffer_ok_def nullptr_def)
  have al: "(4096 :: ptr) mod 8 = 0" by simp
  from C4_free_list_coalesces_to_one_block [OF ok al, of mem0] ok al show ?thesis by blast
qed

text \<open>
  C5 (\<open>PopMarker\<close> rewinds to the pushed marker and the first allocation repeats at the
  same address). The sums of \<open>StackAllocator::Allocate\<close> wrap around unchecked: on a buffer
  of 1024 bytes with offset 116, \<open>PushMarker()\<close> and then \<open>Allocate(2^64 - 66, 1)\<close> returns
  the non-null pointer 4228 and leaves the offset at 66, below the marker; \<open>PopMarker()\<close>
  then does not rewind (\<open>FreeToMarker\<close> requires \<open>marker \<le> m_offset\<close>), and the same
  request returns another address. Where no sum wraps around the claim holds: lemma
  \<open>StackAllocator_PopMarker_rewinds_without_wrap\<close>.
\<close>

theorem C5_marker_not_restored_after_wrapped_request:
  "\<exists>p0 s1 p1 s3 p2 s5.
     StackAllocator_Allocate (StackAllocator_new mem0 4096 1024) 100 1 = Inr (p0, s1) \<and>
     StackAllocator_GetMarker s1 = 116 \<and>
     StackAllocator_Allocate (StackAllocator_PushMarker s1) 18446744073709551550 1 = Inr (p1, s3) \<and>
     p1 = 4228 \<and> p1 \<noteq> nullptr \<and>
     stk_m_offset (StackAllocator_PopMarker s3) = 66 \<and>
     StackAllocator_Allocate (StackAllocator_PopMarker s3) 18446744073709551550 1 = Inr (p2, s5) \<and>
     p2 = 4178 \<and> p2 \<noteq> p1"
  by (simp add: StackAllocator_new_def StackAllocator_Allocate_def StackAllocator_GetMarker_def
      StackAllocator_PushMarker_def StackAllocator_PopMarker_def StackAllocator_FreeToMarker_def
      StackAllocator_newOffset_def StackAllocator_padding_def StackAllocator_headerSize_def
      Let_def nullptr_def)

text \<open>
  C6 (the pool allocator's \<open>Allocate\<close>). When some class has \<open>block_size \<ge> size\<close>,
  \<open>findPool\<close> returns the first such class in declared order. If its free list is empty,
  \<open>Allocate\<close> returns null and the allocator is unchanged, later classes included.
  Otherwise it returns the head of that free list, \<open>GetTotalAllocated()\<close> grows by the
  class's \<open>block_size\<close> (in \<open>size_t\<close> arithmetic), and no other class changes.
\<close>

theorem C6_pool_Allocate_first_fitting_class:
  assumes "\<exists>pool \<in> set (pools s). sz \<le> blockSize pool"
  shows "\<exists>i. findPool s sz = Inr i \<and> i < length (pools s) \<and>
           sz \<le> blockSize (pools s ! i) \<and> (\<forall>j < i. \<not> sz \<le> blockSize (pools s ! j)) \<and>
           (if freeList (pools s ! i) = nullptr
            then PoolAllocator_Allocate s sz alignment = Inr (nullptr, s)
            else \<exists>s'. PoolAllocator_Allocate s sz alignment = Inr (freeList (pools s ! i), s') \<and>
                   PoolAllocator_GetTotalAllocated s' =
                     PoolAllocator_GetTotalAllocated s + blockSize (pools s ! i) \<and>
                   (\<forall>j < length (pools s). j \<noteq> i \<longrightarrow> pools s' ! j = pools s ! j))"
proof -
  from findPool_first_fit [OF assms] obtain i where
    i: "findPool s sz = Inr i" "i < length (pools s)" "sz \<le> blockSize (pools s ! i)"
    "\<forall>j < i. \<not> sz \<le> blockSize (pools s ! j)" by blast
  then show ?thesis
    by (intro exI [of _ i])
      (simp add: PoolAllocator_Allocate_def Let_def PoolAllocator_GetTotalAllocated_def)
qed

theorem C6_witness:
  "(\<exists>pool \<in> set (pools S5_pool). (20 :: size_t) \<le> blockSize pool) \<and>
   findPool S5_pool 20 = Inr 0 \<and>
   (\<exists>s'. PoolAllocator_Allocate S5_pool 20 8 = Inr (4192, s') \<and>
      PoolAllocator_GetTotalAllocated s' = 32)"
  using C6_pool_Allocate_first_fitting_class [of S5_pool 20 8]
  by (auto simp: S5_pool_def S5_pools_def findPool_def nullptr_def
      PoolAllocator_GetTotalAllocated_def)

text \<open>
  C7 (\<open>GetAllocationSize\<close> is 0 for null and foreign pointers and the usable size for owned
  ones). The linear allocator keeps no sizes: it returns the distance from the pointer to the
  end of the used part of the buffer. After two allocations of 10 bytes it returns 20 for the
  first pointer.
\<close>

theorem C7_counterexample_linear_size_is_upper_bound:
  "LinearAllocator_Allocate (LinearAllocator_new mem0 4096 128) 10 1 =
     Inr (4096, (LinearAllocator_new mem0 4096 128)
            \<lparr>lin_m_offset := 10, lin_m_allocationCount := 1, lin_m_peakUsage := 10\<rparr>) \<and>
   LinearAllocator_Allocate ((LinearAllocator_new mem0 4096 128)
            \<lparr>lin_m_offset := 10, lin_m_allocationCount := 1, lin_m_peakUsage := 10\<rparr>) 10 1 =
     Inr (4106, Linear_two_allocations) \<and>
   LinearAllocator_Owns Linear_two_allocations 4096 \<and>
   LinearAllocator_GetAllocationSize Linear_two_allocations 4096 = 20 \<and>
   LinearAllocator_GetAllocationSize Linear_two_allocations 4096 \<noteq> 10"
  by (simp add: Linear_two_allocations_def LinearAllocator_new_def LinearAllocator_Allocate_def
      LinearAllocator_newOffset_def LinearAllocator_padding_def Let_def
      LinearAllocator_Owns_def LinearAllocator_GetAllocationSize_def)

text \<open>
  C7 as amended. Linear allocator: 0 for a pointer it does not own (null is such a pointer),
  and for an owned pointer the distance from it to \<open>m_buffer + m_offset\<close>, an upper bound
  of the size of its region. Stack allocator: 0 for a pointer it does not own; for the
  pointer \<open>Allocate\<close> has just returned for a non-zero size, the requested size, which a
  later \<open>Allocate\<close> leaves as it is for every owned pointer that has a header. Pool
  allocator: 0 for a pointer it does not own, and for an owned pointer the \<open>blockSize\<close> of a
  pool whose slab contains it. Free-list allocator: 0 for null; for the pointer \<open>Allocate\<close>
  has just returned for a power-of-two alignment of at most 128, the requested size plus at
  most \<open>MIN_BLOCK_SIZE\<close> bytes of an absorbed remainder.
\<close>

theorem C7_GetAllocationSize:
  "(\<not> LinearAllocator_Owns ls lp \<longrightarrow> LinearAllocator_GetAllocationSize ls lp = 0) \<and>
   (lin_m_buffer ls \<noteq> nullptr \<longrightarrow> \<not> LinearAllocator_Owns ls nullptr) \<and>
   (LinearAllocator_Owns ls lq \<longrightarrow>
      LinearAllocator_GetAllocationSize ls lq = lin_m_buffer ls + lin_m_offset ls - lq) \<and>
   (\<not> StackAllocator_Owns ss sp \<longrightarrow> StackAllocator_GetAllocationSize ss sp = 0) \<and>
   (stk_m_buffer ss \<noteq> nullptr \<longrightarrow> \<not> StackAllocator_Owns ss nullptr) \<and>
   (StackAllocator_Allocate ss ssz sal = Inr (sq, ss') \<and> sq \<noteq> nullptr \<and> ssz \<noteq> 0 \<and>
    StackAllocator_no_wrap ss ssz sal \<and> buffer_ok (stk_m_buffer ss) (stk_m_bufferSize ss)
    \<longrightarrow> StackAllocator_Owns ss' sq \<and> StackAllocator_GetAllocationSize ss' sq = ssz) \<and>
   (StackAllocator_Allocate ts tsz tal = Inr (tp, ts') \<and> StackAllocator_Owns ts tq \<and>
    unat (stk_m_buffer ts) + 16 \<le> unat tq \<and> StackAllocator_ValidateInternalState ts \<and>
    StackAllocator_no_wrap ts tsz tal \<and> buffer_ok (stk_m_buffer ts) (stk_m_bufferSize ts)
    \<longrightarrow> StackAllocator_Owns ts' tq \<and>
      StackAllocator_GetAllocationSize ts' tq = StackAllocator_GetAllocationSize ts tq) \<and>
   (\<not> PoolAllocator_Owns ps pp \<longrightarrow> PoolAllocator_GetAllocationSize ps pp = 0) \<and>
   ((\<forall>pool \<in> set (pools ps). memory pool \<noteq> nullptr) \<longrightarrow> \<not> PoolAllocator_Owns ps nullptr) \<and>
   (PoolAllocator_Owns ps pq \<longrightarrow>
      (\<exists>pool \<in> set (pools ps). Pool_contains pool pq \<and>
         PoolAllocator_GetAllocationSize ps pq = blockSize pool)) \<and>
   FreeListAllocator_GetAllocationSize fs nullptr = 0 \<and>
   (FreeListAllocator_Allocate fs fsz fal = Some (fq, fs') \<and> fq \<noteq> nullptr \<and>
    power_of_two fal \<and> fal \<le> 128
    \<longrightarrow> (\<exists>e. e \<le> MIN_BLOCK_SIZE \<and> FreeListAllocator_GetAllocationSize fs' fq = fsz + e))"
proof (intro conjI impI; (elim conjE)?)
  show "LinearAllocator_GetAllocationSize ls lp = 0" if "\<not> LinearAllocator_Owns ls lp"
    using that by (auto simp: LinearAllocator_Owns_def LinearAllocator_GetAllocationSize_def)
  show "\<not> LinearAllocator_Owns ls nullptr" if "lin_m_buffer ls \<noteq> nullptr"
    using that by (simp add: LinearAllocator_Owns_def nullptr_def)
  show "LinearAllocator_GetAllocationSize ls lq = lin_m_buffer ls + lin_m_offset ls - lq"
    if "LinearAllocator_Owns ls lq"
    using that by (auto simp: LinearAllocator_Owns_def LinearAllocator_GetAllocationSize_def)
  show "StackAllocator_GetAllocationSize ss sp = 0" if "\<not> StackAllocator_Owns ss sp"
    using that by (simp add: StackAllocator_GetAllocationSize_def)
  show "\<not> StackAllocator_Owns ss nullptr" if "stk_m_buffer ss \<noteq> nullptr"
    using that by (simp add: StackAllocator_Owns_def nullptr_def)
  show "PoolAllocator_GetAllocationSize ps pp = 0" if "\<not> PoolAllocator_Owns ps pp"
    using that by (simp add: PoolAllocator_Owns_def PoolAllocator_GetAllocationSize_def
        PoolAllocator_GetAllocationSize_loop_not_owned)
  show "\<not> PoolAllocator_Owns ps nullptr" if "\<forall>pool \<in> set (pools ps). memory pool \<noteq> nullptr"
    using that by (auto simp: PoolAllocator_Owns_def PoolAllocator_Owns_loop_iff
        dest: Pool_contains_null)
  show "\<exists>pool \<in> set (pools ps). Pool_contains pool pq \<and>
         PoolAllocator_GetAllocationSize ps pq = blockSize pool" if "PoolAllocator_Owns ps pq"
    using that PoolAllocator_GetAllocationSize_loop_owned [of "pools ps" pq]
    by (simp add: PoolAllocator_Owns_def PoolAllocator_GetAllocationSize_def)
  show "FreeListAllocator_GetAllocationSize fs nullptr = 0"
    by (simp add: FreeListAllocator_GetAllocationSize_def)
next
  assume "StackAllocator_Allocate ss ssz sal = Inr (sq, ss')" "sq \<noteq> nullptr" "ssz \<noteq> 0"
    "StackAllocator_no_wrap ss ssz sal" "buffer_ok (stk_m_buffer ss) (stk_m_bufferSize ss)"
  then show "StackAllocator_Owns ss' sq" and "StackAllocator_GetAllocationSize ss' sq = ssz"
    by (simp_all add: StackAllocator_GetAllocationSize_after_Allocate)
next
  assume t: "StackAllocator_Allocate ts tsz tal = Inr (tp, ts')"
    "StackAllocator_no_wrap ts tsz tal" "buffer_ok (stk_m_buffer ts) (stk_m_bufferSize ts)"
    "StackAllocator_ValidateInternalState ts" "StackAllocator_Owns ts tq"
    "unat (stk_m_buffer ts) + 16 \<le> unat tq"
  show "StackAllocator_Owns ts' tq"
    and "StackAllocator_GetAllocationSize ts' tq = StackAllocator_GetAllocationSize ts tq"
    by (rule StackAllocator_Allocate_keeps_older_sizes [OF t])+
next
  assume "FreeListAllocator_Allocate fs fsz fal = Some (fq, fs')" "fq \<noteq> nullptr"
    "power_of_two fal" "fal \<le> 128"
  then show "\<exists>e. e \<le> MIN_BLOCK_SIZE \<and> FreeListAllocator_GetAllocationSize fs' fq = fsz + e"
    by (rule FreeListAllocator_GetAllocationSize_after_Allocate)
qed

theorem C7_witness:
  "\<not> LinearAllocator_Owns Linear_two_allocations 5000 \<and>
   LinearAllocator_GetAllocationSize Linear_two_allocations 5000 = 0 \<and>
   lin_m_buffer Linear_two_allocations \<noteq> nullptr \<and> \<not> LinearAllocator_Owns Linear_two_allocations nullptr \<and>
   LinearAllocator_Owns Linear_two_allocations 4096 \<and>
   LinearAllocator_GetAllocationSize Linear_two_allocations 4096 = 20 \<and>
   \<not> StackAllocator_Owns (StackAllocator_new mem0 4096 128) 4112 \<and>
   StackAllocator_GetAllocationSize (StackAllocator_new mem0 4096 128) 4112 = 0 \<and>
   \<not> StackAllocator_Owns (StackAllocator_new mem0 4096 128) nullptr \<and>
   StackAllocator_Allocate (StackAllocator_new mem0 4096 128) 84 8 = Inr (4112, S1_stack) \<and>
   StackAllocator_no_wrap (StackAllocator_new mem0 4096 128) 84 8 \<and>
   StackAllocator_Owns S1_stack 4112 \<and> StackAllocator_GetAllocationSize S1_stack 4112 = 84 \<and>
   (\<exists>ts'. StackAllocator_Allocate S1_stack 8 8 = Inr (4216, ts') \<and>
      StackAllocator_Owns ts' 4112 \<and> StackAllocator_GetAllocationSize ts' 4112 = 84) \<and>
   \<not> PoolAllocator_Owns S5_pool 8 \<and> PoolAllocator_GetAllocationSize S5_pool 8 = 0 \<and>
   \<not> PoolAllocator_Owns S5_pool nullptr \<and>
   PoolAllocator_Owns S5_pool 4192 \<and> PoolAllocator_GetAllocationSize S5_pool 4192 = 32 \<and>
   FreeListAllocator_GetAllocationSize (FreeListAllocator_new mem0 4096 1024) nullptr = 0 \<and>
   power_of_two 8 \<and> (8 :: size_t) \<le> 128 \<and>
   (\<exists>fs' e. FreeListAllocator_Allocate (FreeListAllocator_new mem0 4096 1024) 200 8
               = Some (4128, fs') \<and>
      e \<le> MIN_BLOCK_SIZE \<and> FreeListAllocator_GetAllocationSize fs' 4128 = 200 + e)"
proof -
  let ?ss = "StackAllocator_new mem0 4096 128" and ?fs = "FreeListAllocator_new mem0 4096 1024"
  have l: "\<not> LinearAllocator_Owns Linear_two_allocations 5000" "lin_m_buffer Linear_two_allocations \<noteq> nullptr"
    "LinearAllocator_Owns Linear_two_allocations 4096" "lin_m_buffer Linear_two_allocations + lin_m_offset Linear_two_allocations - 4096 = 20"
    by (simp_all add: Linear_two_allocations_def LinearAllocator_new_def LinearAllocator_Owns_def nullptr_def)
  have s: "\<not> StackAllocator_Owns ?ss 4112" "stk_m_buffer ?ss \<noteq> nullptr"
    "StackAllocator_no_wrap ?ss 84 8" "buffer_ok (stk_m_buffer ?ss) (stk_m_bufferSize ?ss)"
    "(4112 :: ptr) \<noteq> nullptr" "(84 :: size_t) \<noteq> 0"
    by (simp_all add: StackAllocator_new_def StackAllocator_Owns_def nullptr_def
        StackAllocator_no_wrap_def StackAllocator_padding_def StackAllocator_headerSize_def
        buffer_ok_def)
  have p: "\<not> PoolAllocator_Owns S5_pool 8" "\<forall>pool \<in> set (pools S5_pool). memory pool \<noteq> nullptr"
    "PoolAllocator_Owns S5_pool 4192" "PoolAllocator_GetAllocationSize S5_pool 4192 = 32"
    by (simp_all add: PoolAllocator_Owns_def S5_pool_def S5_pools_def Pool_contains_def
        nullptr_def PoolAllocator_GetAllocationSize_def)
  obtain ts' where ta: "StackAllocator_Allocate S1_stack 8 8 = Inr (4216, ts')"
    by (simp add: S1_stack_def StackAllocator_new_def StackAllocator_Allocate_def
        StackAllocator_newOffset_def StackAllocator_padding_def StackAllocator_headerSize_def
        Let_def)
  have t: "StackAllocator_Owns S1_stack 4112" "unat (stk_m_buffer S1_stack) + 16 \<le> unat (4112 :: ptr)"
    "StackAllocator_ValidateInternalState S1_stack" "StackAllocator_no_wrap S1_stack 8 8"
    "buffer_ok (stk_m_buffer S1_stack) (stk_m_bufferSize S1_stack)"
    by (simp_all add: S1_stack_def StackAllocator_new_def StackAllocator_Owns_def
        StackAllocator_ValidateInternalState_def StackAllocator_no_wrap_def
        StackAllocator_padding_def StackAllocator_headerSize_def buffer_ok_def nullptr_def)
  from fresh_free_list_Allocate obtain fs' where
    fa: "FreeListAllocator_Allocate ?fs 200 8 = Some (4128, fs')" ..
  have f: "(4128 :: ptr) \<noteq> nullptr" "(8 :: size_t) \<le> 128" by (simp_all add: nullptr_def)
  from C7_GetAllocationSize
    [of Linear_two_allocations 5000 4096 ?ss 4112 84 8 4112 S1_stack S1_stack 8 8 4216 ts' 4112
      S5_pool 8 4192 ?fs 200 8 4128 fs']
    l s t ta p fa f S1_stack_first power_of_two_8
  show ?thesis by auto
qed

text \<open>
  C8 (exhaustion changes nothing). When the new offset that \<open>Allocate\<close> computes exceeds
  \<open>m_bufferSize\<close>, the linear and the stack allocator return null and the whole state
  (offset, allocation count, peak usage, markers, memory) is the one before the call.
  Conversely, on a buffer that \<open>new[]\<close> can have returned and with sums that do not wrap
  around, a null result comes from that branch only, with the state unchanged.
\<close>

theorem C8_exhausted_Allocate_changes_nothing:
  "(lal \<noteq> 0 \<and> LinearAllocator_newOffset ls lsz lal > lin_m_bufferSize ls
      \<longrightarrow> LinearAllocator_Allocate ls lsz lal = Inr (nullptr, ls)) \<and>
   (LinearAllocator_Allocate ms msz mal = Inr (nullptr, ms') \<and>
    buffer_ok (lin_m_buffer ms) (lin_m_bufferSize ms) \<and> LinearAllocator_no_wrap ms msz mal
      \<longrightarrow> ms' = ms \<and> LinearAllocator_newOffset ms msz mal > lin_m_bufferSize ms) \<and>
   (sal \<noteq> 0 \<and> StackAllocator_newOffset ss ssz sal > stk_m_bufferSize ss
      \<longrightarrow> StackAllocator_Allocate ss ssz sal = Inr (nullptr, ss)) \<and>
   (StackAllocator_Allocate ts tsz tal = Inr (nullptr, ts') \<and>
    buffer_ok (stk_m_buffer ts) (stk_m_bufferSize ts) \<and> StackAllocator_no_wrap ts tsz tal
      \<longrightarrow> ts' = ts \<and> StackAllocator_newOffset ts tsz tal > stk_m_bufferSize ts)"
  using LinearAllocator_null_only_when_exhausted [of ms msz mal ms']
    StackAllocator_null_only_when_exhausted [of ts tsz tal ts']
  by (simp add: LinearAllocator_Allocate_def StackAllocator_Allocate_def Let_def)

theorem C8_witness:
  "(8 :: size_t) \<noteq> 0 \<and>
   LinearAllocator_newOffset S1_linear 40 8 > lin_m_bufferSize S1_linear \<and>
   LinearAllocator_Allocate S1_linear 40 8 = Inr (nullptr, S1_linear) \<and>
   buffer_ok (lin_m_buffer S1_linear) (lin_m_bufferSize S1_linear) \<and>
   LinearAllocator_no_wrap S1_linear 40 8 \<and>
   StackAllocator_newOffset S1_stack 40 8 > stk_m_bufferSize S1_stack \<and>
   StackAllocator_Allocate S1_stack 40 8 = Inr (nullptr, S1_stack) \<and>
   buffer_ok (stk_m_buffer S1_stack) (stk_m_bufferSize S1_stack) \<and>
   StackAllocator_no_wrap S1_stack 40 8"
  using C8_exhausted_Allocate_changes_nothing
    [of 8 S1_linear 40 S1_linear 40 8 S1_linear 8 S1_stack 40 S1_stack 40 8 S1_stack]
  by (simp add: S1_linear_def S1_stack_def LinearAllocator_new_def StackAllocator_new_def
      LinearAllocator_newOffset_def LinearAllocator_padding_def
      StackAllocator_newOffset_def StackAllocator_padding_def StackAllocator_headerSize_def
      buffer_ok_def nullptr_def LinearAllocator_no_wrap_def StackAllocator_no_wrap_def)

text \<open>
  C9 (\<open>Reset\<close> and peak usage). \<open>Reset\<close> of the linear and of the stack allocator zeroes
  the offset and the allocation count, the stack allocator's also empties the marker stack,
  and both leave the peak usage as it was; so does the pool allocator's. The free-list
  allocator's \<open>Reset\<close> sets the peak usage to zero.
\<close>

theorem C9_Reset_and_peak_usage:
  "lin_m_offset (LinearAllocator_Reset ls) = 0 \<and>
   LinearAllocator_GetAllocationCount (LinearAllocator_Reset ls) = 0 \<and>
   LinearAllocator_GetPeakUsage (LinearAllocator_Reset ls) = LinearAllocator_GetPeakUsage ls \<and>
   stk_m_offset (StackAllocator_Reset ss) = 0 \<and>
   StackAllocator_GetAllocationCount (StackAllocator_Reset ss) = 0 \<and>
   stk_m_markers (StackAllocator_Reset ss) = [] \<and>
   StackAllocator_GetPeakUsage (StackAllocator_Reset ss) = StackAllocator_GetPeakUsage ss \<and>
   FreeListAllocator_GetPeakUsage (FreeListAllocator_Reset fs) = 0 \<and>
   PoolAllocator_GetPeakUsage (PoolAllocator_Reset ps) = PoolAllocator_GetPeakUsage ps"
  by (simp add: LinearAllocator_Reset_def LinearAllocator_GetAllocationCount_def
      LinearAllocator_GetPeakUsage_def StackAllocator_Reset_def
      StackAllocator_GetAllocationCount_def StackAllocator_GetPeakUsage_def
      FreeListAllocator_Reset_def FreeListAllocator_GetPeakUsage_def Let_def
      PoolAllocator_GetPeakUsage_def PoolAllocator_Reset_peakUsage)

text \<open>
  C10 (a zero-size request to the linear allocator). With a non-zero alignment, on a buffer
  that \<open>new[]\<close> can have returned, when the padded offset still fits the buffer:
  \<open>Allocate(0, alignment)\<close> returns a non-null pointer equal to the buffer address plus the
  offset after the call; \<open>Owns\<close> is false and \<open>GetAllocationSize\<close> is 0 for it, in that
  state and in every state with the same buffer and offset.
\<close>

theorem C10_zero_size_Allocate:
  assumes al: "alignment \<noteq> 0"
    and fits: "LinearAllocator_newOffset s 0 alignment \<le> lin_m_bufferSize s"
    and buf: "lin_m_buffer s \<noteq> nullptr"
      "unat (lin_m_buffer s) + unat (lin_m_bufferSize s) < 2 ^ 64"
  shows "\<exists>p s'. LinearAllocator_Allocate s 0 alignment = Inr (p, s') \<and>
           p \<noteq> nullptr \<and> p = lin_m_buffer s' + lin_m_offset s' \<and>
           \<not> LinearAllocator_Owns s' p \<and> LinearAllocator_GetAllocationSize s' p = 0 \<and>
           (\<forall>t. lin_m_buffer t = lin_m_buffer s' \<and> lin_m_offset t = lin_m_offset s' \<longrightarrow>
                \<not> LinearAllocator_Owns t p \<and> LinearAllocator_GetAllocationSize t p = 0)"
proof -
  let ?n = "LinearAllocator_newOffset s 0 alignment"
  let ?p = "lin_m_buffer s + ?n"
  have n: "unat ?n \<le> unat (lin_m_bufferSize s)"
    using fits by (simp add: word_le_nat_alt)
  then have "unat (lin_m_buffer s) + unat ?n < 2 ^ 64" using buf(2) by simp
  then have "unat ?p = unat (lin_m_buffer s) + unat ?n"
    by (simp add: unat_add_lem [THEN iffD1])
  moreover have "unat (lin_m_buffer s) \<noteq> 0"
    using buf(1) by (simp add: nullptr_def unat_eq_zero)
  ultimately have "unat ?p \<noteq> 0" by simp
  then have nz: "?p \<noteq> nullptr" by (auto simp: nullptr_def)
  have "\<not> ?n > lin_m_bufferSize s" using fits by simp
  then show ?thesis using al nz
    by (simp add: LinearAllocator_Allocate_def Let_def LinearAllocator_newOffset_def
        LinearAllocator_Owns_def LinearAllocator_GetAllocationSize_def add.assoc)
qed

theorem C10_witness:
  "(8 :: size_t) \<noteq> 0 \<and>
   LinearAllocator_newOffset S1_linear 0 8 \<le> lin_m_bufferSize S1_linear \<and>
   lin_m_buffer S1_linear \<noteq> nullptr \<and>
   unat (lin_m_buffer S1_linear) + unat (lin_m_bufferSize S1_linear) < 2 ^ 64 \<and>
   (\<exists>p s'. LinearAllocator_Allocate S1_linear 0 8 = Inr (p, s') \<and>
           p \<noteq> nullptr \<and> p = lin_m_buffer s' + lin_m_offset s' \<and>
           \<not> LinearAllocator_Owns s' p \<and> LinearAllocator_GetAllocationSize s' p = 0 \<and>
           (\<forall>t. lin_m_buffer t = lin_m_buffer s' \<and> lin_m_offset t = lin_m_offset s' \<longrightarrow>
                \<not> LinearAllocator_Owns t p \<and> LinearAllocator_GetAllocationSize t p = 0))"
  using C10_zero_size_Allocate [of 8 S1_linear]
  by (simp add: S1_linear_def LinearAllocator_new_def LinearAllocator_newOffset_def
      LinearAllocator_padding_def nullptr_def)

end
